theory Spec2Isabelle
  imports Complex_Main
begin

section \<open>JavaScript strings and numbers\<close>

text \<open>
  The handlers of PDFToolbar.tsx use a handful of string built-ins of JavaScript:
  \<^verbatim>\<open>split\<close>, \<open>includes\<close>, \<open>trim\<close>, \<open>parseInt\<close>, \<open>startsWith\<close>, \<open>replace\<close> and
  template literals. Each is written out here on \<open>string\<close>, whose characters are the
  code units below 256. A JavaScript number that is the result of \<open>parseInt\<close> is an
  \<open>int option\<close>, where \<open>None\<close> is \<open>NaN\<close>; integers are unbounded (the rounding of doubles
  beyond \<open>2^53\<close> is not modelled).
\<close>

type_synonym jsnum = "int option"

fun split_on :: "char \<Rightarrow> string \<Rightarrow> string list" where
  "split_on sep [] = [[]]"
| "split_on sep (c # cs) =
     (if c = sep then [] # split_on sep cs
      else (case split_on sep cs of
              [] \<Rightarrow> [[c]]
            | p # ps \<Rightarrow> (c # p) # ps))"

definition includesChar :: "string \<Rightarrow> char \<Rightarrow> bool" where
  "includesChar s c = (c \<in> set s)"

definition startsWith :: "string \<Rightarrow> string \<Rightarrow> bool" where
  "startsWith s p = (take (length p) s = p)"

text \<open>
  The white space that \<open>trim\<close> and \<open>parseInt\<close> skip: of the characters below 256 these
  are tab, line feed, vertical tab, form feed, carriage return, space and the no-break
  space U+00A0.
\<close>

definition isSpace :: "char \<Rightarrow> bool" where
  "isSpace c = (c = CHR '' '' \<or> c = CHR 0x09 \<or> c = CHR 0x0A \<or> c = CHR 0x0B
                 \<or> c = CHR 0x0C \<or> c = CHR 0x0D \<or> c = CHR 0xA0)"

definition trim :: "string \<Rightarrow> string" where
  "trim s = rev (dropWhile isSpace (rev (dropWhile isSpace s)))"

definition isDigit :: "char \<Rightarrow> bool" where
  "isDigit c = (48 \<le> (of_char c :: nat) \<and> (of_char c :: nat) \<le> 57)"

definition digitVal :: "char \<Rightarrow> int" where
  "digitVal c = int (of_char c) - 48"

definition isHexDigit :: "char \<Rightarrow> bool" where
  "isHexDigit c = (isDigit c \<or> (65 \<le> (of_char c :: nat) \<and> (of_char c :: nat) \<le> 70)
                    \<or> (97 \<le> (of_char c :: nat) \<and> (of_char c :: nat) \<le> 102))"

definition hexVal :: "char \<Rightarrow> int" where
  "hexVal c = (if isDigit c then digitVal c
               else if (of_char c :: nat) \<le> 70 then int (of_char c) - 55
               else int (of_char c) - 87)"

definition digitsValue :: "int \<Rightarrow> (char \<Rightarrow> int) \<Rightarrow> string \<Rightarrow> int" where
  "digitsValue radix val ds = foldl (\<lambda>acc d. acc * radix + val d) 0 ds"

text \<open>
  \<open>parseInt(s)\<close> without a radix: leading white space is skipped, one sign is read, a
  prefix \<open>0x\<close> or \<open>0X\<close> selects radix 16, and the longest run of digits is read; with no
  digit at all the result is \<open>NaN\<close>.
\<close>

definition parseDigits :: "int \<Rightarrow> string \<Rightarrow> jsnum" where
  "parseDigits sign s =
     (if startsWith s ''0x'' \<or> startsWith s ''0X'' then
        (let ds = takeWhile isHexDigit (drop 2 s)
         in if ds = [] then None else Some (sign * digitsValue 16 hexVal ds))
      else
        (let ds = takeWhile isDigit s
         in if ds = [] then None else Some (sign * digitsValue 10 digitVal ds)))"

definition parseInt :: "string \<Rightarrow> jsnum" where
  "parseInt s =
     (case dropWhile isSpace s of
        [] \<Rightarrow> None
      | c # cs \<Rightarrow>
          if c = CHR ''-'' then parseDigits (- 1) cs
          else if c = CHR ''+'' then parseDigits 1 cs
          else parseDigits 1 (c # cs))"

text \<open>\<open>String(n)\<close> for a non-negative integer \<open>n\<close>, as a template literal prints it.\<close>

definition digitChar :: "nat \<Rightarrow> char" where
  "digitChar d = char_of (48 + d)"

fun toString :: "nat \<Rightarrow> string" where
  "toString n = (if n < 10 then [digitChar n] else toString (n div 10) @ [digitChar (n mod 10)])"

declare toString.simps [simp del]

text \<open>\<open>s.replace(pat, rep)\<close> with a string pattern replaces the first occurrence only.\<close>

fun replace :: "string \<Rightarrow> string \<Rightarrow> string \<Rightarrow> string" where
  "replace [] pat rep = (if pat = [] then rep else [])"
| "replace (c # cs) pat rep =
     (if startsWith (c # cs) pat then rep @ drop (length pat) (c # cs)
      else c # replace cs pat rep)"

text \<open>Arithmetic on numbers that may be \<open>NaN\<close>.\<close>

definition jsMinus1 :: "jsnum \<Rightarrow> jsnum" where
  "jsMinus1 x = map_option (\<lambda>v. v - 1) x"

text \<open>
  \<open>Array.from({ length: end - start + 1 }, (_, i) => start + i)\<close>: the length goes
  through \<open>ToLength\<close>, which maps \<open>NaN\<close> and negative numbers to 0.
\<close>

definition arrayFromRange :: "jsnum \<Rightarrow> jsnum \<Rightarrow> jsnum list" where
  "arrayFromRange start stop =
     (case (start, stop) of
        (Some s, Some e) \<Rightarrow> map (\<lambda>i. Some (s + int i)) [0 ..< nat (e - s + 1)]
      | _ \<Rightarrow> [])"

text \<open>
  The page-range parser of \<open>handleSplitPDF\<close>:
  \<^verbatim>\<open>splitPages.split(',').map(range => { ... }).flat()\<close>.
  The destructuring \<open>[start, end]\<close> takes the first two pieces of the split.
\<close>

definition parseRange :: "string \<Rightarrow> jsnum list" where
  "parseRange rng =
     (if includesChar rng CHR ''-'' then
        (case map (\<lambda>n. jsMinus1 (parseInt (trim n))) (split_on CHR ''-'' rng) of
           start # stop # _ \<Rightarrow> arrayFromRange start stop
         | _ \<Rightarrow> [])
      else [jsMinus1 (parseInt (trim rng))])"

definition parsePages :: "string \<Rightarrow> jsnum list" where
  "parsePages s = concat (map parseRange (split_on CHR '','' s))"

section \<open>The PDF library\<close>

text \<open>
  The application never looks inside a PDF: it calls pdf-lib. The library is modelled by
  what its calls do to a document: to its page sequence and to its information
  dictionary. A page has a size and the list of things drawn on it. The bytes of a file
  are abstracted to what the library reads from them: a serialised PDF (the flag saying
  whether it was written with object streams, its information dictionary and its
  pages), an encoded image, or anything else. Lengths are real numbers; a date is a
  number of seconds, the resolution at which a PDF stores it.
\<close>

datatype color = RGB real real real

datatype image_format = Jpeg | Png

record image =
  img_format :: image_format
  img_width :: real
  img_height :: real
  img_pixels :: nat

datatype draw_op =
    DrawImage image real real real real
  | DrawText string real real real color

record page =
  page_width :: real
  page_height :: real
  contents :: "draw_op list"

text \<open>
  The information dictionary: the four entries the library writes, and the others
  (title, author and so on), which it carries along untouched.
\<close>

record info =
  producer :: "string option"
  creator :: "string option"
  creationDate :: "nat option"
  modificationDate :: "nat option"
  otherEntries :: "(string \<times> string) list"

record document =
  doc_info :: info
  doc_pages :: "page list"

datatype bytes =
    PdfBytes bool info "page list"
  | ImageBytes image
  | OtherBytes

datatype exn = PdfParseError | ImageParseError | TypeError

record saveOptions =
  useObjectStreams :: bool
  addDefaultPage :: bool

definition defaultSaveOptions :: saveOptions where
  "defaultSaveOptions = \<lparr>useObjectStreams = True, addDefaultPage = True\<rparr>"

definition blankPage :: "real \<Rightarrow> real \<Rightarrow> page" where
  "blankPage w h = \<lparr>page_width = w, page_height = h, contents = []\<rparr>"

definition emptyInfo :: info where
  "emptyInfo = \<lparr>producer = None, creator = None, creationDate = None,
                 modificationDate = None, otherEntries = []\<rparr>"

text \<open>
  Both \<open>PDFDocument.load\<close> and \<open>PDFDocument.create\<close> update the metadata unless they are
  told not to, and the application never tells them: the producer becomes the library,
  the modification date becomes \<open>new Date()\<close>, and creator and creation date are filled
  in where the document has none. The first parameter is the reading of the clock.
\<close>

definition updateInfoDict :: "nat \<Rightarrow> info \<Rightarrow> info" where
  "updateInfoDict now i =
     i\<lparr>producer := Some ''pdf-lib (https://github.com/Hopding/pdf-lib)'',
       modificationDate := Some now,
       creator := (case creator i of
                     None \<Rightarrow> Some ''pdf-lib (https://github.com/Hopding/pdf-lib)''
                   | Some c \<Rightarrow> Some c),
       creationDate := (case creationDate i of None \<Rightarrow> Some now | Some d \<Rightarrow> Some d)\<rparr>"

text \<open>\<open>PDFDocument.load\<close> throws on bytes that are not a PDF.\<close>

definition load :: "nat \<Rightarrow> bytes \<Rightarrow> exn + document" where
  "load now b =
     (case b of
        PdfBytes _ i ps \<Rightarrow> Inr \<lparr>doc_info = updateInfoDict now i, doc_pages = ps\<rparr>
      | _ \<Rightarrow> Inl PdfParseError)"

definition create :: "nat \<Rightarrow> document" where
  "create now = \<lparr>doc_info = updateInfoDict now emptyInfo, doc_pages = []\<rparr>"

definition getPages :: "document \<Rightarrow> page list" where
  "getPages doc = doc_pages doc"

definition getPageIndices :: "document \<Rightarrow> jsnum list" where
  "getPageIndices doc = map (\<lambda>i. Some (int i)) [0 ..< length (doc_pages doc)]"

text \<open>
  \<open>target.copyPages(src, indices)\<close> reads \<open>src.getPages()[i]\<close> for every index and
  dereferences it, so an index that is \<open>NaN\<close>, negative or beyond the last page throws.
\<close>

definition validIndex :: "document \<Rightarrow> jsnum \<Rightarrow> bool" where
  "validIndex src i =
     (case i of None \<Rightarrow> False | Some v \<Rightarrow> 0 \<le> v \<and> v < int (length (doc_pages src)))"

definition copyPages :: "document \<Rightarrow> document \<Rightarrow> jsnum list \<Rightarrow> exn + page list" where
  "copyPages target src indices =
     (if list_all (validIndex src) indices
      then Inr (map (\<lambda>i. doc_pages src ! nat (the i)) indices)
      else Inl TypeError)"

definition addPage :: "document \<Rightarrow> page \<Rightarrow> document" where
  "addPage doc p = doc\<lparr>doc_pages := doc_pages doc @ [p]\<rparr>"

text \<open>\<open>doc.addPage([w, h])\<close> appends a blank page and returns it; the page is named by its index.\<close>

definition addPageSized :: "document \<Rightarrow> real \<times> real \<Rightarrow> document \<times> nat" where
  "addPageSized doc wh =
     (doc\<lparr>doc_pages := doc_pages doc @ [blankPage (fst wh) (snd wh)]\<rparr>, length (doc_pages doc))"

definition embedJpg :: "document \<Rightarrow> bytes \<Rightarrow> exn + image" where
  "embedJpg doc b =
     (case b of
        ImageBytes img \<Rightarrow> if img_format img = Jpeg then Inr img else Inl ImageParseError
      | _ \<Rightarrow> Inl ImageParseError)"

definition embedPng :: "document \<Rightarrow> bytes \<Rightarrow> exn + image" where
  "embedPng doc b =
     (case b of
        ImageBytes img \<Rightarrow> if img_format img = Png then Inr img else Inl ImageParseError
      | _ \<Rightarrow> Inl ImageParseError)"

definition draw :: "document \<Rightarrow> nat \<Rightarrow> draw_op \<Rightarrow> document" where
  "draw doc i d =
     (if i < length (doc_pages doc)
      then doc\<lparr>doc_pages := (doc_pages doc)
                 [i := (doc_pages doc ! i)\<lparr>contents := contents (doc_pages doc ! i) @ [d]\<rparr>]\<rparr>
      else doc)"

definition drawImage :: "document \<Rightarrow> nat \<Rightarrow> image \<Rightarrow> real \<Rightarrow> real \<Rightarrow> real \<Rightarrow> real \<Rightarrow> document" where
  "drawImage doc i img x y w h = draw doc i (DrawImage img x y w h)"

definition drawText :: "document \<Rightarrow> nat \<Rightarrow> string \<Rightarrow> real \<Rightarrow> real \<Rightarrow> real \<Rightarrow> color \<Rightarrow> document" where
  "drawText doc i txt x y sz col = draw doc i (DrawText txt x y sz col)"

definition getHeight :: "page \<Rightarrow> real" where
  "getHeight p = page_height p"

text \<open>
  \<open>doc.save(options)\<close>: with \<open>addDefaultPage\<close> (the default) a document without pages
  gets one blank A4 page before it is written.
\<close>

definition save :: "saveOptions \<Rightarrow> document \<Rightarrow> bytes" where
  "save opts doc =
     PdfBytes (useObjectStreams opts) (doc_info doc)
       (if addDefaultPage opts \<and> doc_pages doc = []
        then [blankPage (59528 / 100) (84189 / 100)]
        else doc_pages doc)"

section \<open>Application state\<close>

text \<open>
  A browser \<open>File\<close> has a name, a MIME type, a size and its bytes
  (\<open>file.arrayBuffer()\<close>). A toast is what \<open>toast({...})\<close> was called with. A
  processed file is what \<open>onFileProcessed\<close> receives; its object URL is minted from the
  blob and is left out.
\<close>

record jsfile =
  file_name :: string
  file_type :: string
  file_size :: nat
  file_data :: bytes

datatype variant = Default | Destructive

record toast =
  title :: string
  description :: string
  variant :: variant

record processedFile =
  name :: string
  blob :: bytes

text \<open>
  The state of the page and of its components, in one record: \<open>files\<close> is
  \<open>uploadedFiles\<close> of Index.tsx, handed to the toolbar as the prop \<open>files\<close>;
  \<open>processedFiles\<close> is the list of Index.tsx; \<open>toasts\<close> are the calls of \<open>toast\<close> so far;
  \<open>processing\<close>, \<open>splitPages\<close>, \<open>compressionLevel\<close> and \<open>mergeOrder\<close> are the state of
  PDFToolbar.tsx; \<open>uploadedFiles\<close> is the state of FileUploader.tsx. \<open>clock\<close> is not
  state of the page: it is what \<open>new Date()\<close> reads, in seconds, while a handler runs.
\<close>

record app =
  files :: "jsfile list"
  processedFiles :: "processedFile list"
  toasts :: "toast list"
  processing :: bool
  splitPages :: string
  compressionLevel :: "int list"
  mergeOrder :: "nat list"
  uploadedFiles :: "jsfile list"
  clock :: nat

definition emit :: "toast \<Rightarrow> app \<Rightarrow> app" where
  "emit t st = st\<lparr>toasts := toasts st @ [t]\<rparr>"

definition setProcessing :: "bool \<Rightarrow> app \<Rightarrow> app" where
  "setProcessing b st = st\<lparr>processing := b\<rparr>"

text \<open>Index.tsx, \<open>handleFilesUploaded\<close> and \<open>handleFileProcessed\<close>.\<close>

definition handleFilesUploaded :: "jsfile list \<Rightarrow> app \<Rightarrow> app" where
  "handleFilesUploaded fs st =
     emit \<lparr>title = ''Files uploaded successfully'',
           description = toString (length fs) @ '' file(s) ready for processing'',
           variant = Default\<rparr>
       (st\<lparr>files := fs\<rparr>)"

definition handleFileProcessed :: "processedFile \<Rightarrow> app \<Rightarrow> app" where
  "handleFileProcessed pf st =
     emit \<lparr>title = ''File processed successfully'',
           description = name pf @ '' is ready for download'',
           variant = Default\<rparr>
       (st\<lparr>processedFiles := processedFiles st @ [pf]\<rparr>)"

text \<open>PDFToolbar.tsx, the effect that follows every change of \<open>files\<close>.\<close>

definition syncMergeOrder :: "app \<Rightarrow> app" where
  "syncMergeOrder st = st\<lparr>mergeOrder := [0 ..< length (files st)]\<rparr>"

section \<open>The toolbar handlers\<close>

text \<open>
  All five handlers share one skeleton: \<open>setProcessing(true)\<close>, a \<open>try\<close> block, a
  \<open>catch\<close> block that shows a destructive toast, and \<open>finally setProcessing(false)\<close>.
  A \<open>try\<close> block is a function from the state to the exception it raised, if any, and
  the state it left behind.
\<close>

definition tryCatchFinally :: "(app \<Rightarrow> exn option \<times> app) \<Rightarrow> toast \<Rightarrow> app \<Rightarrow> app" where
  "tryCatchFinally body failed st =
     (case body (setProcessing True st) of
        (None, st') \<Rightarrow> setProcessing False st'
      | (Some e, st') \<Rightarrow> setProcessing False (emit failed st'))"

definition errorToast :: "string \<Rightarrow> toast" where
  "errorToast d = \<lparr>title = ''Error'', description = d, variant = Destructive\<rparr>"

subsection \<open>Split\<close>

definition splitTry :: "jsfile \<Rightarrow> app \<Rightarrow> exn option \<times> app" where
  "splitTry f st =
     (case load (clock st) (file_data f) of
        Inl e \<Rightarrow> (Some e, st)
      | Inr pdfDoc \<Rightarrow>
          (let pages = parsePages (splitPages st);
               newPdfDoc = create (clock st)
           in case copyPages newPdfDoc pdfDoc pages of
                Inl e \<Rightarrow> (Some e, st)
              | Inr copiedPages \<Rightarrow>
                  (let newPdfDoc = foldl addPage newPdfDoc copiedPages;
                       pdfBytes = save defaultSaveOptions newPdfDoc;
                       st = handleFileProcessed
                              \<lparr>name = replace (file_name f) ''.pdf'' [] @ ''_split.pdf'',
                               blob = pdfBytes\<rparr> st;
                       st = emit \<lparr>title = ''PDF Split Successfully'',
                                  description = ''Extracted '' @ toString (length pages) @ '' pages'',
                                  variant = Default\<rparr> st
                   in (None, st))))"

definition splitFailed :: toast where
  "splitFailed = \<lparr>title = ''Split Failed'',
                  description = ''An error occurred while splitting the PDF'',
                  variant = Destructive\<rparr>"

definition handleSplitPDF :: "app \<Rightarrow> app" where
  "handleSplitPDF st =
     (case files st of
        [] \<Rightarrow> emit (errorToast ''Please upload a PDF file to split'') st
      | f # _ \<Rightarrow>
          if file_type f \<noteq> ''application/pdf''
          then emit (errorToast ''Please upload a PDF file to split'') st
          else tryCatchFinally (splitTry f) splitFailed st)"

subsection \<open>Merge\<close>

fun mergeLoop :: "nat \<Rightarrow> jsfile list \<Rightarrow> nat list \<Rightarrow> document \<Rightarrow> exn + document" where
  "mergeLoop now pdfFiles [] mergedPdf = Inr mergedPdf"
| "mergeLoop now pdfFiles (index # rest) mergedPdf =
     (if index < length pdfFiles then
        (case load now (file_data (pdfFiles ! index)) of
           Inl e \<Rightarrow> Inl e
         | Inr pdf \<Rightarrow>
             (case copyPages mergedPdf pdf (getPageIndices pdf) of
                Inl e \<Rightarrow> Inl e
              | Inr pages \<Rightarrow> mergeLoop now pdfFiles rest (foldl addPage mergedPdf pages)))
      else mergeLoop now pdfFiles rest mergedPdf)"

definition mergeTry :: "jsfile list \<Rightarrow> app \<Rightarrow> exn option \<times> app" where
  "mergeTry pdfFiles st =
     (case mergeLoop (clock st) pdfFiles (mergeOrder st) (create (clock st)) of
        Inl e \<Rightarrow> (Some e, st)
      | Inr mergedPdf \<Rightarrow>
          (let pdfBytes = save defaultSaveOptions mergedPdf;
               st = handleFileProcessed \<lparr>name = ''merged_document.pdf'', blob = pdfBytes\<rparr> st;
               st = emit \<lparr>title = ''PDFs Merged Successfully'',
                          description = ''Combined '' @ toString (length pdfFiles) @ '' PDF files'',
                          variant = Default\<rparr> st
           in (None, st)))"

definition mergeFailed :: toast where
  "mergeFailed = \<lparr>title = ''Merge Failed'',
                  description = ''An error occurred while merging PDFs'',
                  variant = Destructive\<rparr>"

definition handleMergePDFs :: "app \<Rightarrow> app" where
  "handleMergePDFs st =
     (let pdfFiles = filter (\<lambda>f. file_type f = ''application/pdf'') (files st)
      in if length pdfFiles < 2
         then emit (errorToast ''Please upload at least 2 PDF files to merge'') st
         else tryCatchFinally (mergeTry pdfFiles) mergeFailed st)"

subsection \<open>Image to PDF\<close>

definition addImagePage :: "document \<Rightarrow> image \<Rightarrow> document" where
  "addImagePage pdfDoc img =
     (case addPageSized pdfDoc (img_width img, img_height img) of
        (pdfDoc, pg) \<Rightarrow> drawImage pdfDoc pg img 0 0 (img_width img) (img_height img))"

fun imageLoop :: "jsfile list \<Rightarrow> document \<Rightarrow> exn + document" where
  "imageLoop [] pdfDoc = Inr pdfDoc"
| "imageLoop (f # rest) pdfDoc =
     (if file_type f = ''image/jpeg'' \<or> file_type f = ''image/jpg'' then
        (case embedJpg pdfDoc (file_data f) of
           Inl e \<Rightarrow> Inl e
         | Inr img \<Rightarrow> imageLoop rest (addImagePage pdfDoc img))
      else if file_type f = ''image/png'' then
        (case embedPng pdfDoc (file_data f) of
           Inl e \<Rightarrow> Inl e
         | Inr img \<Rightarrow> imageLoop rest (addImagePage pdfDoc img))
      else imageLoop rest pdfDoc)"

definition imageTry :: "jsfile list \<Rightarrow> app \<Rightarrow> exn option \<times> app" where
  "imageTry imageFiles st =
     (case imageLoop imageFiles (create (clock st)) of
        Inl e \<Rightarrow> (Some e, st)
      | Inr pdfDoc \<Rightarrow>
          (let pdfBytes = save defaultSaveOptions pdfDoc;
               st = handleFileProcessed \<lparr>name = ''images_to_pdf.pdf'', blob = pdfBytes\<rparr> st;
               st = emit \<lparr>title = ''Images Converted Successfully'',
                          description = ''Created PDF from '' @ toString (length imageFiles) @ '' images'',
                          variant = Default\<rparr> st
           in (None, st)))"

definition imageFailed :: toast where
  "imageFailed = \<lparr>title = ''Conversion Failed'',
                  description = ''An error occurred while converting images'',
                  variant = Destructive\<rparr>"

definition handleImageToPDF :: "app \<Rightarrow> app" where
  "handleImageToPDF st =
     (let imageFiles = filter (\<lambda>f. startsWith (file_type f) ''image/'') (files st)
      in if length imageFiles = 0
         then emit (errorToast ''Please upload image files to convert'') st
         else tryCatchFinally (imageTry imageFiles) imageFailed st)"

subsection \<open>Compress\<close>

text \<open>
  The toast of a successful compression prints
  \<^verbatim>\<open>((file.size - blob.size) / file.size * 100).toFixed(1)\<close>, a floating-point
  computation on the size of the file and of the blob. It is the parameter
  \<open>compressionRatio\<close> of the handler.
\<close>

definition compressTry :: "(nat \<Rightarrow> bytes \<Rightarrow> string) \<Rightarrow> jsfile \<Rightarrow> app \<Rightarrow> exn option \<times> app" where
  "compressTry compressionRatio f st =
     (case load (clock st) (file_data f) of
        Inl e \<Rightarrow> (Some e, st)
      | Inr pdfDoc \<Rightarrow>
          (let pdfBytes = save \<lparr>useObjectStreams = False, addDefaultPage = False\<rparr> pdfDoc;
               st = handleFileProcessed
                      \<lparr>name = replace (file_name f) ''.pdf'' [] @ ''_compressed.pdf'',
                       blob = pdfBytes\<rparr> st;
               st = emit \<lparr>title = ''PDF Compressed Successfully'',
                          description = ''File size reduced by ''
                                          @ compressionRatio (file_size f) pdfBytes @ ''%'',
                          variant = Default\<rparr> st
           in (None, st)))"

definition compressFailed :: toast where
  "compressFailed = \<lparr>title = ''Compression Failed'',
                     description = ''An error occurred while compressing the PDF'',
                     variant = Destructive\<rparr>"

definition handleCompressPDF :: "(nat \<Rightarrow> bytes \<Rightarrow> string) \<Rightarrow> app \<Rightarrow> app" where
  "handleCompressPDF compressionRatio st =
     (case files st of
        [] \<Rightarrow> emit (errorToast ''Please upload a PDF file to compress'') st
      | f # _ \<Rightarrow>
          if file_type f \<noteq> ''application/pdf''
          then emit (errorToast ''Please upload a PDF file to compress'') st
          else tryCatchFinally (compressTry compressionRatio f) compressFailed st)"

subsection \<open>Edit\<close>

text \<open>
  \<open>pages[0]\<close> of a document without pages is \<open>undefined\<close>, and calling \<open>drawText\<close> on
  it is a \<open>TypeError\<close>.
\<close>

definition editTry :: "jsfile \<Rightarrow> app \<Rightarrow> exn option \<times> app" where
  "editTry f st =
     (case load (clock st) (file_data f) of
        Inl e \<Rightarrow> (Some e, st)
      | Inr pdfDoc \<Rightarrow>
          (case getPages pdfDoc of
             [] \<Rightarrow> (Some TypeError, st)
           | firstPage # _ \<Rightarrow>
               (let pdfDoc = drawText pdfDoc 0 ''Sample Edit - Text Added by PDF Forge''
                               50 (getHeight firstPage - 50) 12 (RGB 1 0 0);
                    pdfBytes = save defaultSaveOptions pdfDoc;
                    st = handleFileProcessed
                           \<lparr>name = replace (file_name f) ''.pdf'' [] @ ''_edited.pdf'',
                            blob = pdfBytes\<rparr> st;
                    st = emit \<lparr>title = ''PDF Edited Successfully'',
                               description = ''Sample text has been added to the document'',
                               variant = Default\<rparr> st
                in (None, st))))"

definition editFailed :: toast where
  "editFailed = \<lparr>title = ''Edit Failed'',
                 description = ''An error occurred while editing the PDF'',
                 variant = Destructive\<rparr>"

definition handleEditPDF :: "app \<Rightarrow> app" where
  "handleEditPDF st =
     (case files st of
        [] \<Rightarrow> emit (errorToast ''Please upload a PDF file to edit'') st
      | f # _ \<Rightarrow>
          if file_type f \<noteq> ''application/pdf''
          then emit (errorToast ''Please upload a PDF file to edit'') st
          else tryCatchFinally (editTry f) editFailed st)"

section \<open>The uploader\<close>

text \<open>
  FileUploader.tsx. The callback of \<open>files.filter\<close> shows a toast for each file it
  rejects, so the filter threads the state.
\<close>

definition checkFile :: "jsfile \<Rightarrow> app \<Rightarrow> bool \<times> app" where
  "checkFile f st =
     (let isPDF = (file_type f = ''application/pdf'');
          isImage = startsWith (file_type f) ''image/''
      in if \<not> isPDF \<and> \<not> isImage then
           (False, emit \<lparr>title = ''Invalid file type'',
                         description = file_name f @ '' is not a PDF or image file'',
                         variant = Destructive\<rparr> st)
         else if file_size f > 50 * 1024 * 1024 then
           (False, emit \<lparr>title = ''File too large'',
                         description = file_name f @ '' exceeds 50MB limit'',
                         variant = Destructive\<rparr> st)
         else (True, st))"

fun filterFiles :: "jsfile list \<Rightarrow> app \<Rightarrow> jsfile list \<times> app" where
  "filterFiles [] st = ([], st)"
| "filterFiles (f # fs) st =
     (case checkFile f st of
        (ok, st) \<Rightarrow>
          (case filterFiles fs st of
             (validFiles, st) \<Rightarrow> (if ok then f # validFiles else validFiles, st)))"

text \<open>
  \<open>handleFiles\<close> reads \<open>uploadedFiles\<close> from the closure of the render that created it;
  that value is the first parameter here.
\<close>

definition handleFiles :: "jsfile list \<Rightarrow> jsfile list \<Rightarrow> app \<Rightarrow> app" where
  "handleFiles closureFiles fs st =
     (case filterFiles fs st of
        (validFiles, st) \<Rightarrow>
          if length validFiles > 0 then
            (let newFiles = closureFiles @ validFiles;
                 st = st\<lparr>uploadedFiles := newFiles\<rparr>
             in handleFilesUploaded newFiles st)
          else st)"

text \<open>
  \<open>handleFileInput\<close> is created anew by every render and calls the \<open>handleFiles\<close> of
  that render, which sees the current \<open>uploadedFiles\<close>.
\<close>

definition handleFileInput :: "jsfile list \<Rightarrow> app \<Rightarrow> app" where
  "handleFileInput fs st = handleFiles (uploadedFiles st) fs st"

text \<open>
  \<open>handleDrop\<close> is \<open>useCallback(..., [])\<close>: with an empty dependency list React keeps
  the function of the first render for the life of the component. It calls the
  \<open>handleFiles\<close> of that first render, whose \<open>uploadedFiles\<close> is the initial state
  \<open>useState<File[]>([])\<close>, the empty list.
\<close>

definition handleDrop :: "jsfile list \<Rightarrow> app \<Rightarrow> app" where
  "handleDrop fs st = handleFiles [] fs st"

definition accepted :: "jsfile \<Rightarrow> bool" where
  "accepted f = ((file_type f = ''application/pdf'' \<or> startsWith (file_type f) ''image/'')
                 \<and> file_size f \<le> 52428800)"

section \<open>The editor canvas\<close>

text \<open>
  PDFEditor.tsx (the canvas editor) keeps a fabric.js canvas, which is \<open>null\<close> until
  PDFCanvas.tsx has created it, and the two flags \<open>canUndo\<close> and \<open>canRedo\<close>. Of the
  canvas the handlers use \<open>getObjects()\<close>, the objects in stacking order, \<open>add\<close> and
  \<open>remove\<close>; an object is on the canvas once.
\<close>

record 'o editor =
  fabricCanvas :: "'o list option"
  canUndo :: bool
  canRedo :: bool
  shown :: "toast list"

definition updateUndoRedo :: "'o editor \<Rightarrow> 'o editor" where
  "updateUndoRedo ed =
     (case fabricCanvas ed of
        None \<Rightarrow> ed
      | Some objs \<Rightarrow> ed\<lparr>canUndo := (length objs > 0), canRedo := False\<rparr>)"

text \<open>\<open>canvas.add(o)\<close> fires \<open>object:added\<close> and \<open>canvas.remove(o)\<close> fires
  \<open>object:removed\<close>; both events are wired to \<open>updateUndoRedo\<close>.\<close>

definition canvasAdd :: "'o \<Rightarrow> 'o editor \<Rightarrow> 'o editor" where
  "canvasAdd ob ed =
     (case fabricCanvas ed of
        None \<Rightarrow> ed
      | Some objs \<Rightarrow> updateUndoRedo (ed\<lparr>fabricCanvas := Some (objs @ [ob])\<rparr>))"

definition canvasRemove :: "'o \<Rightarrow> 'o editor \<Rightarrow> 'o editor" where
  "canvasRemove ob ed =
     (case fabricCanvas ed of
        None \<Rightarrow> ed
      | Some objs \<Rightarrow>
          if ob \<in> set objs
          then updateUndoRedo (ed\<lparr>fabricCanvas := Some (remove1 ob objs)\<rparr>)
          else ed)"

definition handleUndo :: "'o editor \<Rightarrow> 'o editor" where
  "handleUndo ed =
     (case fabricCanvas ed of
        None \<Rightarrow> ed
      | Some objs \<Rightarrow>
          if canUndo ed then
            (if length objs > 0
             then updateUndoRedo (canvasRemove (last objs) ed)
             else ed)
          else ed)"

definition handleRedo :: "'o editor \<Rightarrow> 'o editor" where
  "handleRedo ed =
     ed\<lparr>shown := shown ed @ [\<lparr>title = ''Redo'',
                               description = ''Redo functionality coming soon!'',
                               variant = Default\<rparr>]\<rparr>"

section \<open>The tool buttons\<close>

text \<open>
  \<open>Tool\<close> of Index.tsx and the \<open>switch (tool)\<close> of \<open>renderToolControls\<close>: each tool shows
  one button, wired to one handler; \<open>upload\<close> shows none.
\<close>

datatype tool = Upload | Split | Merge | ImageToPdf | Compress | Edit

definition runTool :: "(nat \<Rightarrow> bytes \<Rightarrow> string) \<Rightarrow> tool \<Rightarrow> app \<Rightarrow> app" where
  "runTool compressionRatio t st =
     (case t of
        Upload \<Rightarrow> st
      | Split \<Rightarrow> handleSplitPDF st
      | Merge \<Rightarrow> handleMergePDFs st
      | ImageToPdf \<Rightarrow> handleImageToPDF st
      | Compress \<Rightarrow> handleCompressPDF compressionRatio st
      | Edit \<Rightarrow> handleEditPDF st)"

text \<open>
  The \<open>try\<close> block a tool's handler enters in a state, if its guard lets it in, and the
  exception that block raises there, if any.
\<close>

definition firstPdf :: "app \<Rightarrow> jsfile option" where
  "firstPdf st =
     (case files st of
        [] \<Rightarrow> None
      | f # _ \<Rightarrow> if file_type f \<noteq> ''application/pdf'' then None else Some f)"

definition tryBlock :: "(nat \<Rightarrow> bytes \<Rightarrow> string) \<Rightarrow> tool \<Rightarrow> app
                          \<Rightarrow> (app \<Rightarrow> exn option \<times> app) option" where
  "tryBlock compressionRatio t st =
     (case t of
        Upload \<Rightarrow> None
      | Split \<Rightarrow> map_option splitTry (firstPdf st)
      | Merge \<Rightarrow>
          (let pdfFiles = filter (\<lambda>f. file_type f = ''application/pdf'') (files st)
           in if length pdfFiles < 2 then None else Some (mergeTry pdfFiles))
      | ImageToPdf \<Rightarrow>
          (let imageFiles = filter (\<lambda>f. startsWith (file_type f) ''image/'') (files st)
           in if length imageFiles = 0 then None else Some (imageTry imageFiles))
      | Compress \<Rightarrow> map_option (compressTry compressionRatio) (firstPdf st)
      | Edit \<Rightarrow> map_option editTry (firstPdf st))"

definition thrown :: "(nat \<Rightarrow> bytes \<Rightarrow> string) \<Rightarrow> tool \<Rightarrow> app \<Rightarrow> exn option" where
  "thrown compressionRatio t st =
     (case tryBlock compressionRatio t st of
        None \<Rightarrow> None
      | Some body \<Rightarrow> fst (body (setProcessing True st)))"

definition failedToast :: "tool \<Rightarrow> toast" where
  "failedToast t =
     (case t of
        Upload \<Rightarrow> errorToast []
      | Split \<Rightarrow> splitFailed
      | Merge \<Rightarrow> mergeFailed
      | ImageToPdf \<Rightarrow> imageFailed
      | Compress \<Rightarrow> compressFailed
      | Edit \<Rightarrow> editFailed)"

section \<open>What the claims speak of\<close>

subsection \<open>Page-range strings\<close>

text \<open>
  A page-range string is a comma-separated list of items; an item is a 1-based page
  number or a dashed range \<open>a-b\<close>. The placeholder of the input field,
  \<open>1-3, 5, 7-9\<close>, has blanks around the numbers, so every number carries the count of
  blanks before and after it. \<open>listed\<close> gives the pages an item stands for.
\<close>

type_synonym padding = "nat \<times> nat"

datatype rangeItem = Single padding nat | Dashed padding nat padding nat

definition padded :: "padding \<Rightarrow> string \<Rightarrow> string" where
  "padded p s = replicate (fst p) CHR '' '' @ s @ replicate (snd p) CHR '' ''"

fun showItem :: "rangeItem \<Rightarrow> string" where
  "showItem (Single p n) = padded p (toString n)"
| "showItem (Dashed p a q b) = padded p (toString a) @ ''-'' @ padded q (toString b)"

fun joinWith :: "char \<Rightarrow> string list \<Rightarrow> string" where
  "joinWith c [] = []"
| "joinWith c [x] = x"
| "joinWith c (x # y # ys) = x @ c # joinWith c (y # ys)"

definition showRanges :: "rangeItem list \<Rightarrow> string" where
  "showRanges items = joinWith CHR '','' (map showItem items)"

fun listed :: "rangeItem \<Rightarrow> nat list" where
  "listed (Single p n) = [n]"
| "listed (Dashed p a q b) = [a ..< Suc b]"

definition listedPages :: "rangeItem list \<Rightarrow> nat list" where
  "listedPages items = concat (map listed items)"

definition inDocument :: "page list \<Rightarrow> nat \<Rightarrow> bool" where
  "inDocument doc n = (1 \<le> n \<and> n \<le> length doc)"

definition processedToast :: "string \<Rightarrow> toast" where
  "processedToast n = \<lparr>title = ''File processed successfully'',
                        description = n @ '' is ready for download'',
                        variant = Default\<rparr>"

subsection \<open>Files the library can read\<close>

definition parses :: "jsfile \<Rightarrow> bool" where
  "parses f = (case file_data f of PdfBytes _ _ _ \<Rightarrow> True | _ \<Rightarrow> False)"

definition pagesOf :: "jsfile \<Rightarrow> page list" where
  "pagesOf f = (case file_data f of PdfBytes _ _ ps \<Rightarrow> ps | _ \<Rightarrow> [])"

definition isPdf :: "jsfile \<Rightarrow> bool" where
  "isPdf f = (file_type f = ''application/pdf'')"

definition isSupportedImage :: "jsfile \<Rightarrow> bool" where
  "isSupportedImage f = (file_type f = ''image/jpeg'' \<or> file_type f = ''image/jpg''
                          \<or> file_type f = ''image/png'')"

definition decoded :: "jsfile \<Rightarrow> image option" where
  "decoded f =
     (case file_data f of
        ImageBytes img \<Rightarrow>
          if (file_type f = ''image/png'') = (img_format img = Png) then Some img else None
      | _ \<Rightarrow> None)"

definition isImage :: "jsfile \<Rightarrow> bool" where
  "isImage f = startsWith (file_type f) ''image/''"

definition imagesOf :: "jsfile list \<Rightarrow> image list" where
  "imagesOf fs = List.map_filter decoded fs"

definition imagePage :: "image \<Rightarrow> page" where
  "imagePage img = \<lparr>page_width = img_width img, page_height = img_height img,
                    contents = [DrawImage img 0 0 (img_width img) (img_height img)]\<rparr>"

definition sampleText :: "page \<Rightarrow> draw_op" where
  "sampleText p = DrawText ''Sample Edit - Text Added by PDF Forge''
                    50 (page_height p - 50) 12 (RGB 1 0 0)"

text \<open>The processed files a step has added, and the toast the uploader shows for a file it rejects.\<close>

definition produced :: "app \<Rightarrow> app \<Rightarrow> processedFile list" where
  "produced before after = drop (length (processedFiles before)) (processedFiles after)"

definition rejection :: "jsfile \<Rightarrow> toast" where
  "rejection f =
     (if file_type f = ''application/pdf'' \<or> startsWith (file_type f) ''image/''
      then \<lparr>title = ''File too large'',
            description = file_name f @ '' exceeds 50MB limit'', variant = Destructive\<rparr>
      else \<lparr>title = ''Invalid file type'',
            description = file_name f @ '' is not a PDF or image file'',
            variant = Destructive\<rparr>)"

subsection \<open>Concrete inputs\<close>

definition initialApp :: app where
  "initialApp = \<lparr>files = [], processedFiles = [], toasts = [], processing = False,
                 splitPages = ''1-2'', compressionLevel = [75], mergeOrder = [],
                 uploadedFiles = [], clock = 1000\<rparr>"

definition pageA :: page where
  "pageA = \<lparr>page_width = 612, page_height = 792, contents = []\<rparr>"

definition pageB :: page where
  "pageB = \<lparr>page_width = 595, page_height = 842,
            contents = [DrawText ''B'' 72 770 10 (RGB 0 0 0)]\<rparr>"

definition scanInfo :: info where
  "scanInfo = \<lparr>producer = Some ''scanner'', creator = Some ''scanner'',
                creationDate = Some 500, modificationDate = Some 600,
                otherEntries = [(''Title'', ''Report'')]\<rparr>"

definition onePagePdf :: jsfile where
  "onePagePdf = \<lparr>file_name = ''one.pdf'', file_type = ''application/pdf'',
                 file_size = 1000, file_data = PdfBytes True emptyInfo [pageA]\<rparr>"

definition twoPagePdf :: jsfile where
  "twoPagePdf = \<lparr>file_name = ''two.pdf'', file_type = ''application/pdf'',
                 file_size = 2000, file_data = PdfBytes True scanInfo [pageB, pageA]\<rparr>"

definition brokenPdf :: jsfile where
  "brokenPdf = \<lparr>file_name = ''broken.pdf'', file_type = ''application/pdf'',
                file_size = 10, file_data = OtherBytes\<rparr>"

definition photo :: image where
  "photo = \<lparr>img_format = Png, img_width = 640, img_height = 480, img_pixels = 1\<rparr>"

definition photoPng :: jsfile where
  "photoPng = \<lparr>file_name = ''photo.png'', file_type = ''image/png'',
               file_size = 5000, file_data = ImageBytes photo\<rparr>"

definition brokenPng :: jsfile where
  "brokenPng = \<lparr>file_name = ''broken.png'', file_type = ''image/png'',
                file_size = 10, file_data = OtherBytes\<rparr>"

definition animGif :: jsfile where
  "animGif = \<lparr>file_name = ''anim.gif'', file_type = ''image/gif'',
              file_size = 300, file_data = OtherBytes\<rparr>"

definition hugePdf :: jsfile where
  "hugePdf = \<lparr>file_name = ''huge.pdf'', file_type = ''application/pdf'',
              file_size = 52428801, file_data = PdfBytes True emptyInfo [pageA]\<rparr>"

definition textFile :: jsfile where
  "textFile = \<lparr>file_name = ''notes.txt'', file_type = ''text/plain'',
            file_size = 12, file_data = OtherBytes\<rparr>"

definition noPagePdf :: jsfile where
  "noPagePdf = \<lparr>file_name = ''empty.pdf'', file_type = ''application/pdf'',
                file_size = 300, file_data = PdfBytes True emptyInfo []\<rparr>"

definition sampleRatio :: "nat \<Rightarrow> bytes \<Rightarrow> string" where
  "sampleRatio sz b = ''0.0''"

definition emptyEditor :: "nat editor" where
  "emptyEditor = \<lparr>fabricCanvas = Some [], canUndo = False, canRedo = False, shown = []\<rparr>"



section \<open>Properties\<close>

subsection \<open>Numbers and strings\<close>

lemma digitChar_isDigit: "d < 10 \<Longrightarrow> isDigit (digitChar d)"
  by (simp add: isDigit_def digitChar_def)

lemma digitVal_digitChar: "d < 10 \<Longrightarrow> digitVal (digitChar d) = int d"
  by (simp add: digitVal_def digitChar_def)

lemma toString_digits: "list_all isDigit (toString n)"
  by (induction n rule: toString.induct) (subst toString.simps, simp add: digitChar_isDigit)

lemma toString_ne: "toString n \<noteq> []"
  by (subst toString.simps) simp

lemma toString_value: "digitsValue 10 digitVal (toString n) = int n"
proof (induction n rule: toString.induct)
  case (1 n)
  show ?case
  proof (cases "n < 10")
    case True
    then show ?thesis by (subst toString.simps) (simp add: digitsValue_def digitVal_digitChar)
  next
    case False
    with 1 have "digitsValue 10 digitVal (toString (n div 10)) = int (n div 10)" by simp
    with False show ?thesis
      by (subst toString.simps) (simp add: digitsValue_def digitVal_digitChar zdiv_int zmod_int)
  qed
qed

lemma isDigit_not_space: "isDigit c \<Longrightarrow> \<not> isSpace c"
  by (auto simp: isDigit_def isSpace_def)

lemma isDigit_not_sep: "isDigit c \<Longrightarrow> c \<noteq> CHR '','' \<and> c \<noteq> CHR ''-'' \<and> c \<noteq> CHR ''+'' \<and> c \<noteq> CHR ''x'' \<and> c \<noteq> CHR ''X''"
  by (auto simp: isDigit_def)

lemma digits_not_hex:
  assumes "list_all isDigit s"
  shows "\<not> startsWith s ''0x''" "\<not> startsWith s ''0X''"
  using assms isDigit_not_sep
  by (cases s; cases "tl s"; auto simp: startsWith_def)+

lemma takeWhile_all: "list_all P s \<Longrightarrow> takeWhile P s = s"
  by (induction s) auto

lemma parseInt_digits:
  assumes "list_all isDigit s" "s \<noteq> []"
  shows "parseInt s = Some (digitsValue 10 digitVal s)"
proof -
  from assms obtain c cs where s: "s = c # cs" by (cases s) auto
  with assms have c: "isDigit c" by simp
  then have "dropWhile isSpace s = s" using s isDigit_not_space by simp
  moreover have "parseDigits 1 s = Some (digitsValue 10 digitVal s)"
    using assms digits_not_hex[OF assms(1)] by (simp add: parseDigits_def takeWhile_all)
  ultimately show ?thesis using s c isDigit_not_sep[OF c] by (simp add: parseInt_def)
qed

lemma parseInt_toString: "parseInt (toString n) = Some (int n)"
  by (simp add: parseInt_digits toString_digits toString_ne toString_value)

lemma dropWhile_spaces: "dropWhile isSpace (replicate k CHR '' '' @ s) = dropWhile isSpace s"
  by (induction k) (auto simp: isSpace_def)

lemma trim_padded:
  assumes "list_all isDigit s" "s \<noteq> []"
  shows "trim (padded p s) = s"
proof -
  from assms have h: "\<not> isSpace (hd s)" "\<not> isSpace (last s)"
    using isDigit_not_space by (auto simp: list_all_iff)
  have 1: "dropWhile isSpace (padded p s) = s @ replicate (snd p) CHR '' ''"
    using h(1) assms(2) by (cases s) (auto simp: padded_def dropWhile_spaces)
  have 2: "dropWhile isSpace (rev (s @ replicate (snd p) CHR '' '')) = rev s"
    using h(2) assms(2) by (cases s rule: rev_cases) (auto simp: dropWhile_spaces)
  show ?thesis by (simp add: trim_def 1 2 del: rev_append)
qed


lemma split_on_none: "c \<notin> set p \<Longrightarrow> split_on c p = [p]"
  by (induction p) auto

lemma split_on_append: "c \<notin> set p \<Longrightarrow> split_on c (p @ c # r) = p # split_on c r"
  by (induction p) auto

lemma digits_no_char:
  assumes "list_all isDigit s" "\<not> isDigit c"
  shows "c \<notin> set s"
  using assms by (auto simp: list_all_iff)

lemma padded_no_char:
  assumes "list_all isDigit s" "\<not> isDigit c" "c \<noteq> CHR '' ''"
  shows "c \<notin> set (padded p s)"
  using assms by (auto simp: padded_def list_all_iff)

lemma not_digit_dash: "\<not> isDigit CHR ''-''"
  by (simp add: isDigit_def)

lemma not_digit_comma: "\<not> isDigit CHR '',''"
  by (simp add: isDigit_def)

lemma number_field:
  "jsMinus1 (parseInt (trim (padded p (toString n)))) = Some (int n - 1)"
  by (simp add: trim_padded toString_digits toString_ne parseInt_toString jsMinus1_def)

lemma arrayFromRange_upt:
  "arrayFromRange (Some (int a - 1)) (Some (int b - 1)) = map (\<lambda>n. Some (int n - 1)) [a ..< Suc b]"
proof (cases "a \<le> b")
  case True
  have "[a ..< Suc b] = map (\<lambda>i. i + a) [0 ..< Suc b - a]"
    using True by (simp add: map_add_upt)
  moreover have "nat (int b - 1 - (int a - 1) + 1) = Suc b - a" using True by simp
  ultimately show ?thesis by (simp add: arrayFromRange_def o_def add.commute)
next
  case False
  then show ?thesis by (simp add: arrayFromRange_def)
qed

lemma parseRange_showItem: "parseRange (showItem it) = map (\<lambda>n. Some (int n - 1)) (listed it)"
proof (cases it)
  case (Single p n)
  have "CHR ''-'' \<notin> set (padded p (toString n))"
    by (rule padded_no_char) (simp_all add: toString_digits not_digit_dash)
  then show ?thesis using Single by (simp add: parseRange_def includesChar_def number_field)
next
  case (Dashed p a q b)
  have a: "CHR ''-'' \<notin> set (padded p (toString a))" and b: "CHR ''-'' \<notin> set (padded q (toString b))"
    by (rule padded_no_char, simp_all add: toString_digits not_digit_dash)+
  have "split_on CHR ''-'' (showItem it) = [padded p (toString a), padded q (toString b)]"
    using Dashed a b by (simp add: split_on_append split_on_none)
  moreover have "includesChar (showItem it) CHR ''-''" using Dashed by (simp add: includesChar_def)
  ultimately show ?thesis using Dashed
    by (simp add: parseRange_def number_field arrayFromRange_upt)
qed

lemma showItem_no_comma: "CHR '','' \<notin> set (showItem it)"
proof (cases it)
  case (Single p n)
  then show ?thesis using padded_no_char[OF toString_digits not_digit_comma] by simp
next
  case (Dashed p a q b)
  then show ?thesis using padded_no_char[OF toString_digits not_digit_comma] by simp
qed

lemma split_joinWith:
  assumes "xs \<noteq> []" "list_all (\<lambda>x. c \<notin> set x) xs"
  shows "split_on c (joinWith c xs) = xs"
  using assms
proof (induction c xs rule: joinWith.induct)
  case (1 c)
  then show ?case by simp
next
  case (2 c x)
  then show ?case by (simp add: split_on_none)
next
  case (3 c x y ys)
  then show ?case by (simp add: split_on_append)
qed

lemma parsePages_showRanges:
  assumes "items \<noteq> []"
  shows "parsePages (showRanges items) = map (\<lambda>n. Some (int n - 1)) (listedPages items)"
proof -
  have "split_on CHR '','' (showRanges items) = map showItem items"
    unfolding showRanges_def using assms
    by (intro split_joinWith) (simp_all add: list_all_iff showItem_no_comma)
  then show ?thesis
    by (simp add: parsePages_def listedPages_def parseRange_showItem map_concat o_def)
qed



subsection \<open>Split\<close>

lemma validIndex_page: "validIndex src (Some (int n - 1)) = inDocument (doc_pages src) n"
  by (auto simp: validIndex_def inDocument_def)

lemma copyPages_listed:
  assumes "list_all (inDocument (doc_pages src)) ns"
  shows "copyPages target src (map (\<lambda>n. Some (int n - 1)) ns)
           = Inr (map (\<lambda>n. doc_pages src ! (n - 1)) ns)"
proof -
  have "nat (int n - 1) = n - 1" for n by simp
  then show ?thesis using assms
    by (simp add: copyPages_def list_all_iff validIndex_page o_def)
qed

lemma copyPages_outside:
  assumes "\<not> list_all (inDocument (doc_pages src)) ns"
  shows "copyPages target src (map (\<lambda>n. Some (int n - 1)) ns) = Inl TypeError"
  using assms by (simp add: copyPages_def list_all_iff validIndex_page)

lemma foldl_addPage: "foldl addPage doc ps = doc\<lparr>doc_pages := doc_pages doc @ ps\<rparr>"
  by (induction ps arbitrary: doc) (simp_all add: addPage_def)

lemma save_default_nonempty:
  "doc_pages doc \<noteq> [] \<Longrightarrow> save defaultSaveOptions doc = PdfBytes True (doc_info doc) (doc_pages doc)"
  by (simp add: save_def defaultSaveOptions_def)

lemma splitTry_ok:
  assumes "file_data f = PdfBytes os meta doc" "splitPages st = showRanges items" "items \<noteq> []"
    "list_all (inDocument doc) (listedPages items)" "listedPages items \<noteq> []"
  shows "splitTry f st =
     (None, emit \<lparr>title = ''PDF Split Successfully'',
                  description = ''Extracted '' @ toString (length (listedPages items)) @ '' pages'',
                  variant = Default\<rparr>
            (handleFileProcessed \<lparr>name = replace (file_name f) ''.pdf'' [] @ ''_split.pdf'',
                     blob = PdfBytes True (updateInfoDict (clock st) emptyInfo)
                              (map (\<lambda>n. doc ! (n - 1)) (listedPages items))\<rparr> st))"
proof -
  let ?src = "\<lparr>doc_info = updateInfoDict (clock st) meta, doc_pages = doc\<rparr>"
  let ?out = "map (\<lambda>n. doc ! (n - 1)) (listedPages items)"
  have ld: "load (clock st) (PdfBytes os meta doc) = Inr ?src"
    by (simp add: load_def)
  have pp: "parsePages (showRanges items) = map (\<lambda>n. Some (int n - 1)) (listedPages items)"
    using assms(3) by (rule parsePages_showRanges)
  have cp: "copyPages (create (clock st)) ?src (map (\<lambda>n. Some (int n - 1)) (listedPages items))
              = Inr ?out"
    using assms(4) copyPages_listed [of ?src "listedPages items" "create (clock st)"] by simp
  have sv: "save defaultSaveOptions (foldl addPage (create (clock st)) ?out)
              = PdfBytes True (updateInfoDict (clock st) emptyInfo) ?out"
    using assms(5) by (simp add: foldl_addPage create_def save_default_nonempty)
  show ?thesis
    unfolding splitTry_def Let_def
    by (simp only: assms(1,2) ld sum.case pp cp sv length_map)
qed

text \<open>
  Claim C1, as the code has it. With no file, or a first file that is not of type
  \<open>application/pdf\<close>, the split shows an error toast and changes nothing else. When the
  first file is a PDF the library can read, the page-range string is a comma-separated
  list of 1-based page numbers and dashed ranges, every listed page exists in the
  document and at least one page is listed, the split hands on one new PDF that holds
  exactly the listed pages of the first file, in the order of the string (a range
  \<open>a-b\<close> giving pages \<open>a\<close> to \<open>b\<close>), reports the number of listed pages, and ends
  with the processing flag off.
\<close>

theorem split_extracts_listed_pages:
  "(files st = [] \<or> file_type (hd (files st)) \<noteq> ''application/pdf''
      \<longrightarrow> handleSplitPDF st = st\<lparr>toasts := toasts st @ [errorToast ''Please upload a PDF file to split'']\<rparr>)
   \<and> (files st = f # fs \<and> file_type f = ''application/pdf'' \<and> file_data f = PdfBytes os meta doc
        \<and> splitPages st = showRanges items \<and> items \<noteq> []
        \<and> list_all (inDocument doc) (listedPages items) \<and> listedPages items \<noteq> []
      \<longrightarrow> handleSplitPDF st =
            st\<lparr>processedFiles := processedFiles st @
                   [\<lparr>name = replace (file_name f) ''.pdf'' [] @ ''_split.pdf'',
                     blob = PdfBytes True (updateInfoDict (clock st) emptyInfo)
                              (map (\<lambda>n. doc ! (n - 1)) (listedPages items))\<rparr>],
               toasts := toasts st @
                   [processedToast (replace (file_name f) ''.pdf'' [] @ ''_split.pdf''),
                    \<lparr>title = ''PDF Split Successfully'',
                     description = ''Extracted '' @ toString (length (listedPages items)) @ '' pages'',
                     variant = Default\<rparr>],
               processing := False\<rparr>)"
proof (intro conjI impI)
  assume "files st = [] \<or> file_type (hd (files st)) \<noteq> ''application/pdf''"
  then show "handleSplitPDF st = st\<lparr>toasts := toasts st @ [errorToast ''Please upload a PDF file to split'']\<rparr>"
    by (cases "files st") (auto simp: handleSplitPDF_def emit_def)
next
  assume a: "files st = f # fs \<and> file_type f = ''application/pdf'' \<and> file_data f = PdfBytes os meta doc
        \<and> splitPages st = showRanges items \<and> items \<noteq> []
        \<and> list_all (inDocument doc) (listedPages items) \<and> listedPages items \<noteq> []"
  then have sp: "splitPages (setProcessing True st) = showRanges items"
    by (simp add: setProcessing_def)
  have t: "splitTry f (setProcessing True st) =
     (None, emit \<lparr>title = ''PDF Split Successfully'',
                     description = ''Extracted '' @ toString (length (listedPages items)) @ '' pages'',
                     variant = Default\<rparr>
            (handleFileProcessed \<lparr>name = replace (file_name f) ''.pdf'' [] @ ''_split.pdf'',
                     blob = PdfBytes True (updateInfoDict (clock st) emptyInfo)
                              (map (\<lambda>n. doc ! (n - 1)) (listedPages items))\<rparr> (setProcessing True st)))"
    using a sp splitTry_ok [of f os meta doc "setProcessing True st" items]
    by (simp add: setProcessing_def)
  have "handleSplitPDF st = setProcessing False (snd (splitTry f (setProcessing True st)))"
    using a by (simp add: handleSplitPDF_def tryCatchFinally_def t)
  then show "handleSplitPDF st =
            st\<lparr>processedFiles := processedFiles st @
                   [\<lparr>name = replace (file_name f) ''.pdf'' [] @ ''_split.pdf'',
                     blob = PdfBytes True (updateInfoDict (clock st) emptyInfo)
                              (map (\<lambda>n. doc ! (n - 1)) (listedPages items))\<rparr>],
               toasts := toasts st @
                   [processedToast (replace (file_name f) ''.pdf'' [] @ ''_split.pdf''),
                    \<lparr>title = ''PDF Split Successfully'',
                     description = ''Extracted '' @ toString (length (listedPages items)) @ '' pages'',
                     variant = Default\<rparr>],
               processing := False\<rparr>"
    unfolding t by (simp add: emit_def handleFileProcessed_def setProcessing_def processedToast_def)
qed


text \<open>
  The claim C1 as it was stated fails on the initial page range \<open>1-2\<close> and a PDF of one
  page: page 2 does not exist, \<open>copyPages\<close> throws, and the handler ends with the toast
  ``Split Failed'' and no processed file.
\<close>

theorem split_default_range_one_page:
  "files (initialApp\<lparr>files := [onePagePdf]\<rparr>) = [onePagePdf]
   \<and> file_type onePagePdf = ''application/pdf''
   \<and> splitPages (initialApp\<lparr>files := [onePagePdf]\<rparr>) = showRanges [Dashed (0, 0) 1 (0, 0) 2]
   \<and> listedPages [Dashed (0, 0) 1 (0, 0) 2] = [1, 2]
   \<and> handleSplitPDF (initialApp\<lparr>files := [onePagePdf]\<rparr>) =
         initialApp\<lparr>files := [onePagePdf], toasts := [splitFailed]\<rparr>"
  by code_simp

text \<open>
  A range that runs backwards lists no page; the new document is then empty at \<open>save\<close>,
  and the library writes its one default blank page.
\<close>

lemma split_backward_range:
  "handleSplitPDF (initialApp\<lparr>files := [twoPagePdf], splitPages := ''2-1''\<rparr>) =
     initialApp\<lparr>files := [twoPagePdf], splitPages := ''2-1'',
       processedFiles := [\<lparr>name = ''two_split.pdf'',
                           blob = PdfBytes True (updateInfoDict 1000 emptyInfo)
                                    [blankPage (59528 / 100) (84189 / 100)]\<rparr>],
       toasts := [processedToast ''two_split.pdf'',
                  \<lparr>title = ''PDF Split Successfully'', description = ''Extracted 0 pages'',
                   variant = Default\<rparr>]\<rparr>"
  by code_simp

text \<open>The split on no file, and on \<open>2, 1-2\<close> over a PDF of two pages.\<close>

theorem split_extracts_listed_pages_witness:
  "handleSplitPDF (initialApp\<lparr>splitPages := ''2, 1-2''\<rparr>) =
     initialApp\<lparr>splitPages := ''2, 1-2'',
       toasts := [errorToast ''Please upload a PDF file to split'']\<rparr>
   \<and> handleSplitPDF (initialApp\<lparr>files := [twoPagePdf, onePagePdf], splitPages := ''2, 1-2''\<rparr>) =
     initialApp\<lparr>files := [twoPagePdf, onePagePdf], splitPages := ''2, 1-2'',
       processedFiles := [\<lparr>name = ''two_split.pdf'', blob = PdfBytes True (updateInfoDict 1000 emptyInfo) [pageA, pageB, pageA]\<rparr>],
       toasts := [processedToast ''two_split.pdf'',
                  \<lparr>title = ''PDF Split Successfully'', description = ''Extracted 3 pages'',
                   variant = Default\<rparr>]\<rparr>"
proof -
  let ?none = "initialApp\<lparr>splitPages := ''2, 1-2''\<rparr>"
  let ?st = "initialApp\<lparr>files := [twoPagePdf, onePagePdf], splitPages := ''2, 1-2''\<rparr>"
  let ?items = "[Single (0, 0) 2, Dashed (1, 0) 1 (0, 0) 2]"
  have h1: "files ?none = [] \<or> file_type (hd (files ?none)) \<noteq> ''application/pdf''"
    by code_simp
  have h2: "files ?st = twoPagePdf # [onePagePdf] \<and> file_type twoPagePdf = ''application/pdf''
        \<and> file_data twoPagePdf = PdfBytes True scanInfo [pageB, pageA]
        \<and> splitPages ?st = showRanges ?items \<and> ?items \<noteq> []
        \<and> list_all (inDocument [pageB, pageA]) (listedPages ?items) \<and> listedPages ?items \<noteq> []"
    by code_simp
  note a = split_extracts_listed_pages [of ?none, THEN conjunct1, THEN mp, OF h1]
  note b = split_extracts_listed_pages [of ?st twoPagePdf "[onePagePdf]" True scanInfo "[pageB, pageA]" ?items,
      THEN conjunct2, THEN mp, OF h2]
  have c: "?none\<lparr>toasts := toasts ?none @ [errorToast ''Please upload a PDF file to split'']\<rparr>
      = initialApp\<lparr>splitPages := ''2, 1-2'',
          toasts := [errorToast ''Please upload a PDF file to split'']\<rparr>"
    by code_simp
  have d: "?st\<lparr>processedFiles := processedFiles ?st @
                   [\<lparr>name = replace (file_name twoPagePdf) ''.pdf'' [] @ ''_split.pdf'',
                     blob = PdfBytes True (updateInfoDict (clock ?st) emptyInfo)
                              (map (\<lambda>n. [pageB, pageA] ! (n - 1)) (listedPages ?items))\<rparr>],
               toasts := toasts ?st @
                   [processedToast (replace (file_name twoPagePdf) ''.pdf'' [] @ ''_split.pdf''),
                    \<lparr>title = ''PDF Split Successfully'',
                     description = ''Extracted '' @ toString (length (listedPages ?items)) @ '' pages'',
                     variant = Default\<rparr>],
               processing := False\<rparr>
       = initialApp\<lparr>files := [twoPagePdf, onePagePdf], splitPages := ''2, 1-2'',
       processedFiles := [\<lparr>name = ''two_split.pdf'', blob = PdfBytes True (updateInfoDict 1000 emptyInfo) [pageA, pageB, pageA]\<rparr>],
       toasts := [processedToast ''two_split.pdf'',
                  \<lparr>title = ''PDF Split Successfully'', description = ''Extracted 3 pages'',
                   variant = Default\<rparr>]\<rparr>"
    by code_simp
  show ?thesis
    by (rule conjI) (rule trans [OF a c], rule trans [OF b d])
qed



subsection \<open>Merge\<close>

lemma copyPages_all: "copyPages target pdf (getPageIndices pdf) = Inr (doc_pages pdf)"
proof -
  have "list_all (validIndex pdf) (getPageIndices pdf)"
    by (simp add: getPageIndices_def list_all_iff validIndex_def)
  moreover have "map (\<lambda>i. doc_pages pdf ! nat (the i)) (getPageIndices pdf) = doc_pages pdf"
    by (simp add: getPageIndices_def o_def map_nth)
  ultimately show ?thesis by (simp add: copyPages_def)
qed

lemma load_parses:
  "parses f \<Longrightarrow> \<exists>i. load now (file_data f) = Inr \<lparr>doc_info = i, doc_pages = pagesOf f\<rparr>"
  by (simp add: parses_def pagesOf_def load_def split: bytes.splits)

lemma parses_iff_load:
  "parses f = (case load now (file_data f) of Inl _ \<Rightarrow> False | Inr _ \<Rightarrow> True)"
  by (simp add: parses_def load_def split: bytes.splits)

lemma pagesOf_load:
  "pagesOf f = (case load now (file_data f) of Inl _ \<Rightarrow> [] | Inr doc \<Rightarrow> doc_pages doc)"
  by (simp add: pagesOf_def load_def split: bytes.splits)

lemma mergeLoop_parsed:
  assumes "list_all parses pdfFiles"
  shows "mergeLoop now pdfFiles idxs acc =
           Inr (acc\<lparr>doc_pages := doc_pages acc
                  @ concat (map (\<lambda>i. pagesOf (pdfFiles ! i)) (filter (\<lambda>i. i < length pdfFiles) idxs))\<rparr>)"
proof (induction idxs arbitrary: acc)
  case Nil
  show ?case by simp
next
  case (Cons i idxs)
  show ?case
  proof (cases "i < length pdfFiles")
    case True
    with assms have "parses (pdfFiles ! i)" by (simp add: list_all_length)
    then obtain m where "load now (file_data (pdfFiles ! i))
                           = Inr \<lparr>doc_info = m, doc_pages = pagesOf (pdfFiles ! i)\<rparr>"
      using load_parses by blast
    with True Cons.IH show ?thesis by (simp add: copyPages_all foldl_addPage)
  next
    case False
    with Cons.IH show ?thesis by simp
  qed
qed

lemma filter_below:
  assumes "m \<le> n"
  shows "filter (\<lambda>i. i < m) [0 ..< n] = [0 ..< m]"
proof -
  have "n = m + (n - m)" using assms by simp
  then have "[0 ..< n] = [0 ..< m] @ [m ..< n]"
    by (metis upt_add_eq_append zero_le)
  then have "filter (\<lambda>i. i < m) [0 ..< n]
               = filter (\<lambda>i. i < m) [0 ..< m] @ filter (\<lambda>i. i < m) [m ..< n]"
    by (simp only: filter_append)
  also have "filter (\<lambda>i. i < m) [0 ..< m] = [0 ..< m]"
    by (rule filter_True) simp
  also have "filter (\<lambda>i. i < m) [m ..< n] = []"
    by (rule filter_False) simp
  finally show ?thesis by simp
qed

lemma mergeLoop_upload_order:
  assumes "list_all parses pdfFiles" "length pdfFiles \<le> n"
  shows "mergeLoop now pdfFiles [0 ..< n] (create t)
           = Inr \<lparr>doc_info = updateInfoDict t emptyInfo, doc_pages = concat (map pagesOf pdfFiles)\<rparr>"
proof -
  have "map (\<lambda>i. pagesOf (pdfFiles ! i)) [0 ..< length pdfFiles] = map pagesOf pdfFiles"
    by (rule nth_equalityI) simp_all
  then show ?thesis
    using assms by (simp add: mergeLoop_parsed filter_below create_def)
qed

lemma isPdf_filter: "filter (\<lambda>f. file_type f = ''application/pdf'') fs = filter isPdf fs"
  by (simp add: isPdf_def [abs_def])

lemma mergeTry_ok:
  assumes "list_all parses pdfFiles" "length pdfFiles \<le> length (files st)"
    "mergeOrder st = [0 ..< length (files st)]" "concat (map pagesOf pdfFiles) \<noteq> []"
  shows "mergeTry pdfFiles st =
     (None, emit \<lparr>title = ''PDFs Merged Successfully'',
                  description = ''Combined '' @ toString (length pdfFiles) @ '' PDF files'',
                  variant = Default\<rparr>
            (handleFileProcessed \<lparr>name = ''merged_document.pdf'',
                     blob = PdfBytes True (updateInfoDict (clock st) emptyInfo)
                              (concat (map pagesOf pdfFiles))\<rparr> st))"
proof -
  let ?merged = "\<lparr>doc_info = updateInfoDict (clock st) emptyInfo,
                  doc_pages = concat (map pagesOf pdfFiles)\<rparr>"
  have "mergeLoop (clock st) pdfFiles (mergeOrder st) (create (clock st)) = Inr ?merged"
    using assms(1,2,3) by (simp add: mergeLoop_upload_order)
  moreover have "save defaultSaveOptions ?merged
                   = PdfBytes True (updateInfoDict (clock st) emptyInfo) (concat (map pagesOf pdfFiles))"
    using assms(4) save_default_nonempty [of ?merged] by simp
  ultimately show ?thesis by (simp add: mergeTry_def)
qed

text \<open>
  Claim C2, as the code has it. With fewer than two files of type \<open>application/pdf\<close>
  the merge shows an error toast and changes nothing else. With at least two, once the
  effect has set \<open>mergeOrder\<close> to the indices of \<open>files\<close>, when the library can read
  every one of them and they hold at least one page between them, the merge hands on one
  PDF whose pages are the pages of the PDF files, file after file in upload order, each
  file's pages in their own order.
\<close>

theorem merge_concatenates_in_upload_order:
  "(length (filter isPdf (files st)) < 2
      \<longrightarrow> handleMergePDFs st =
            st\<lparr>toasts := toasts st @ [errorToast ''Please upload at least 2 PDF files to merge'']\<rparr>)
   \<and> (2 \<le> length (filter isPdf (files st)) \<and> mergeOrder st = [0 ..< length (files st)]
        \<and> list_all parses (filter isPdf (files st))
        \<and> concat (map pagesOf (filter isPdf (files st))) \<noteq> []
      \<longrightarrow> handleMergePDFs st =
            st\<lparr>processedFiles := processedFiles st @
                   [\<lparr>name = ''merged_document.pdf'',
                     blob = PdfBytes True (updateInfoDict (clock st) emptyInfo)
                              (concat (map pagesOf (filter isPdf (files st))))\<rparr>],
               toasts := toasts st @
                   [processedToast ''merged_document.pdf'',
                    \<lparr>title = ''PDFs Merged Successfully'',
                     description = ''Combined '' @ toString (length (filter isPdf (files st)))
                                     @ '' PDF files'',
                     variant = Default\<rparr>],
               processing := False\<rparr>)"
proof (intro conjI impI)
  assume "length (filter isPdf (files st)) < 2"
  then show "handleMergePDFs st =
            st\<lparr>toasts := toasts st @ [errorToast ''Please upload at least 2 PDF files to merge'']\<rparr>"
    by (simp add: handleMergePDFs_def isPdf_filter emit_def)
next
  let ?pdfs = "filter isPdf (files st)"
  assume a: "2 \<le> length ?pdfs \<and> mergeOrder st = [0 ..< length (files st)]
        \<and> list_all parses ?pdfs \<and> concat (map pagesOf ?pdfs) \<noteq> []"
  have t: "mergeTry ?pdfs (setProcessing True st) =
     (None, emit \<lparr>title = ''PDFs Merged Successfully'',
                  description = ''Combined '' @ toString (length ?pdfs) @ '' PDF files'',
                  variant = Default\<rparr>
            (handleFileProcessed \<lparr>name = ''merged_document.pdf'',
                     blob = PdfBytes True (updateInfoDict (clock st) emptyInfo)
                              (concat (map pagesOf ?pdfs))\<rparr> (setProcessing True st)))"
    using a mergeTry_ok [of ?pdfs "setProcessing True st"] by (simp add: setProcessing_def)
  have "handleMergePDFs st = setProcessing False (snd (mergeTry ?pdfs (setProcessing True st)))"
    using a by (simp add: handleMergePDFs_def isPdf_filter tryCatchFinally_def t Let_def)
  then show "handleMergePDFs st =
            st\<lparr>processedFiles := processedFiles st @
                   [\<lparr>name = ''merged_document.pdf'',
                     blob = PdfBytes True (updateInfoDict (clock st) emptyInfo)
                              (concat (map pagesOf ?pdfs))\<rparr>],
               toasts := toasts st @
                   [processedToast ''merged_document.pdf'',
                    \<lparr>title = ''PDFs Merged Successfully'',
                     description = ''Combined '' @ toString (length ?pdfs) @ '' PDF files'',
                     variant = Default\<rparr>],
               processing := False\<rparr>"
    unfolding t by (simp add: emit_def handleFileProcessed_def setProcessing_def processedToast_def)
qed

text \<open>
  The claim C2 as it was stated fails when a file of type \<open>application/pdf\<close> is not a
  PDF the library can read: \<open>PDFDocument.load\<close> throws, and the handler ends with the
  toast ``Merge Failed'' and no processed file.
\<close>

theorem merge_unreadable_pdf:
  "length (filter isPdf (files (initialApp\<lparr>files := [onePagePdf, brokenPdf]\<rparr>))) = 2
   \<and> handleMergePDFs (syncMergeOrder (initialApp\<lparr>files := [onePagePdf, brokenPdf]\<rparr>)) =
       initialApp\<lparr>files := [onePagePdf, brokenPdf], mergeOrder := [0, 1], toasts := [mergeFailed]\<rparr>"
  by code_simp

text \<open>The merge on one PDF and an image, and on two PDFs with an image between them.\<close>

theorem merge_concatenates_in_upload_order_witness:
  "handleMergePDFs (syncMergeOrder (initialApp\<lparr>files := [onePagePdf, photoPng]\<rparr>)) =
     initialApp\<lparr>files := [onePagePdf, photoPng], mergeOrder := [0, 1],
       toasts := [errorToast ''Please upload at least 2 PDF files to merge'']\<rparr>
   \<and> handleMergePDFs (syncMergeOrder (initialApp\<lparr>files := [twoPagePdf, photoPng, onePagePdf]\<rparr>)) =
     initialApp\<lparr>files := [twoPagePdf, photoPng, onePagePdf], mergeOrder := [0, 1, 2],
       processedFiles := [\<lparr>name = ''merged_document.pdf'',
                           blob = PdfBytes True (updateInfoDict 1000 emptyInfo)
                                    [pageB, pageA, pageA]\<rparr>],
       toasts := [processedToast ''merged_document.pdf'',
                  \<lparr>title = ''PDFs Merged Successfully'', description = ''Combined 2 PDF files'',
                   variant = Default\<rparr>]\<rparr>"
proof -
  let ?few = "syncMergeOrder (initialApp\<lparr>files := [onePagePdf, photoPng]\<rparr>)"
  let ?st = "syncMergeOrder (initialApp\<lparr>files := [twoPagePdf, photoPng, onePagePdf]\<rparr>)"
  have h1: "length (filter isPdf (files ?few)) < 2"
    by code_simp
  have h2: "2 \<le> length (filter isPdf (files ?st)) \<and> mergeOrder ?st = [0 ..< length (files ?st)]
        \<and> list_all parses (filter isPdf (files ?st))
        \<and> concat (map pagesOf (filter isPdf (files ?st))) \<noteq> []"
    by code_simp
  note a = merge_concatenates_in_upload_order [of ?few, THEN conjunct1, THEN mp, OF h1]
  note b = merge_concatenates_in_upload_order [of ?st, THEN conjunct2, THEN mp, OF h2]
  have c: "?few\<lparr>toasts := toasts ?few @ [errorToast ''Please upload at least 2 PDF files to merge'']\<rparr>
      = initialApp\<lparr>files := [onePagePdf, photoPng], mergeOrder := [0, 1],
       toasts := [errorToast ''Please upload at least 2 PDF files to merge'']\<rparr>"
    by code_simp
  have d: "?st\<lparr>processedFiles := processedFiles ?st @
                   [\<lparr>name = ''merged_document.pdf'',
                     blob = PdfBytes True (updateInfoDict (clock ?st) emptyInfo)
                              (concat (map pagesOf (filter isPdf (files ?st))))\<rparr>],
               toasts := toasts ?st @
                   [processedToast ''merged_document.pdf'',
                    \<lparr>title = ''PDFs Merged Successfully'',
                     description = ''Combined '' @ toString (length (filter isPdf (files ?st)))
                                     @ '' PDF files'',
                     variant = Default\<rparr>],
               processing := False\<rparr>
     = initialApp\<lparr>files := [twoPagePdf, photoPng, onePagePdf], mergeOrder := [0, 1, 2],
       processedFiles := [\<lparr>name = ''merged_document.pdf'',
                           blob = PdfBytes True (updateInfoDict 1000 emptyInfo)
                                    [pageB, pageA, pageA]\<rparr>],
       toasts := [processedToast ''merged_document.pdf'',
                  \<lparr>title = ''PDFs Merged Successfully'', description = ''Combined 2 PDF files'',
                   variant = Default\<rparr>]\<rparr>"
    by code_simp
  show ?thesis
    by (rule conjI) (rule trans [OF a c], rule trans [OF b d])
qed



subsection \<open>Image to PDF\<close>

lemma addImagePage_appends:
  "addImagePage doc img = doc\<lparr>doc_pages := doc_pages doc @ [imagePage img]\<rparr>"
  by (simp add: addImagePage_def addPageSized_def drawImage_def draw_def blankPage_def
      imagePage_def)

lemma supported_is_image: "isSupportedImage f \<Longrightarrow> isImage f"
  by (auto simp: isSupportedImage_def isImage_def startsWith_def)

lemma supported_of_images: "filter isSupportedImage (filter isImage fs) = filter isSupportedImage fs"
  by (induction fs) (auto dest: supported_is_image)

lemma isImage_filter: "filter (\<lambda>f. startsWith (file_type f) ''image/'') fs = filter isImage fs"
  by (simp add: isImage_def [abs_def])

lemma embed_decoded:
  assumes "decoded f = Some img"
  shows "file_type f = ''image/png'' \<Longrightarrow> embedPng doc (file_data f) = Inr img"
    and "file_type f \<noteq> ''image/png'' \<Longrightarrow> embedJpg doc (file_data f) = Inr img"
  using assms
  by (auto simp: decoded_def embedPng_def embedJpg_def split: bytes.splits if_splits
      intro: image_format.exhaust)

lemma imageLoop_decoded:
  assumes "list_all (\<lambda>f. decoded f \<noteq> None) (filter isSupportedImage fs)"
  shows "imageLoop fs acc =
           Inr (acc\<lparr>doc_pages := doc_pages acc
                  @ map imagePage (imagesOf (filter isSupportedImage fs))\<rparr>)"
  using assms
proof (induction fs arbitrary: acc)
  case Nil
  show ?case by (simp add: imagesOf_def List.map_filter_simps)
next
  case (Cons f fs)
  show ?case
  proof (cases "isSupportedImage f")
    case False
    with Cons show ?thesis by (simp add: isSupportedImage_def)
  next
    case True
    with Cons.prems obtain img where img: "decoded f = Some img" by auto
    from Cons.prems True
    have rest: "list_all (\<lambda>f. decoded f \<noteq> None) (filter isSupportedImage fs)" by simp
    have step: "imagesOf (filter isSupportedImage (f # fs)) = img # imagesOf (filter isSupportedImage fs)"
      using True img by (simp add: imagesOf_def List.map_filter_simps)
    show ?thesis
    proof (cases "file_type f = ''image/png''")
      case True
      then show ?thesis
        using embed_decoded(1) [OF img True] Cons.IH [OF rest] step
        by (simp add: addImagePage_appends)
    next
      case False
      with True have "file_type f = ''image/jpeg'' \<or> file_type f = ''image/jpg''"
        by (simp add: isSupportedImage_def)
      then show ?thesis
        using embed_decoded(2) [OF img False] Cons.IH [OF rest] step
        by (auto simp: addImagePage_appends)
    qed
  qed
qed

lemma imagesOf_length:
  "list_all (\<lambda>f. decoded f \<noteq> None) fs \<Longrightarrow> length (imagesOf fs) = length fs"
  by (induction fs) (auto simp: imagesOf_def List.map_filter_simps)


lemma imageTry_ok:
  assumes "list_all (\<lambda>f. decoded f \<noteq> None) (filter isSupportedImage imageFiles)"
    "filter isSupportedImage imageFiles \<noteq> []"
  shows "imageTry imageFiles st =
     (None, emit \<lparr>title = ''Images Converted Successfully'',
                  description = ''Created PDF from '' @ toString (length imageFiles) @ '' images'',
                  variant = Default\<rparr>
            (handleFileProcessed \<lparr>name = ''images_to_pdf.pdf'',
                     blob = PdfBytes True (updateInfoDict (clock st) emptyInfo)
                              (map imagePage (imagesOf (filter isSupportedImage imageFiles)))\<rparr> st))"
proof -
  let ?pages = "map imagePage (imagesOf (filter isSupportedImage imageFiles))"
  let ?doc = "\<lparr>doc_info = updateInfoDict (clock st) emptyInfo, doc_pages = ?pages\<rparr>"
  have "imageLoop imageFiles (create (clock st)) = Inr ?doc"
    using assms(1) by (simp add: imageLoop_decoded create_def)
  moreover have "length ?pages = length (filter isSupportedImage imageFiles)"
    using assms(1) by (simp add: imagesOf_length)
  then have "?pages \<noteq> []" using assms(2) by auto
  then have "save defaultSaveOptions ?doc = PdfBytes True (updateInfoDict (clock st) emptyInfo) ?pages"
    using save_default_nonempty [of ?doc] by simp
  ultimately show ?thesis by (simp add: imageTry_def)
qed

text \<open>
  Claim C3, as the code has it. With no file whose type starts with \<open>image/\<close> the
  conversion shows an error toast and changes nothing else. When at least one file has
  type \<open>image/jpeg\<close>, \<open>image/jpg\<close> or \<open>image/png\<close> and the library can decode every such
  file, the conversion hands on one PDF with exactly one page per such file, in upload
  order, each page of the width and height of its image, with the image drawn at (0,0)
  over the whole page; image files of other subtypes give no page.
\<close>

theorem images_become_pages:
  "(filter isImage (files st) = []
      \<longrightarrow> handleImageToPDF st =
            st\<lparr>toasts := toasts st @ [errorToast ''Please upload image files to convert'']\<rparr>)
   \<and> (list_all (\<lambda>f. decoded f \<noteq> None) (filter isSupportedImage (files st))
        \<and> filter isSupportedImage (files st) \<noteq> []
      \<longrightarrow> handleImageToPDF st =
            st\<lparr>processedFiles := processedFiles st @
                   [\<lparr>name = ''images_to_pdf.pdf'',
                     blob = PdfBytes True (updateInfoDict (clock st) emptyInfo)
                              (map imagePage (imagesOf (filter isSupportedImage (files st))))\<rparr>],
               toasts := toasts st @
                   [processedToast ''images_to_pdf.pdf'',
                    \<lparr>title = ''Images Converted Successfully'',
                     description = ''Created PDF from ''
                                     @ toString (length (filter isImage (files st))) @ '' images'',
                     variant = Default\<rparr>],
               processing := False\<rparr>
          \<and> length (imagesOf (filter isSupportedImage (files st)))
              = length (filter isSupportedImage (files st)))"
proof (intro conjI impI)
  assume "filter isImage (files st) = []"
  then show "handleImageToPDF st =
            st\<lparr>toasts := toasts st @ [errorToast ''Please upload image files to convert'']\<rparr>"
    by (simp add: handleImageToPDF_def isImage_filter emit_def)
next
  let ?imgs = "filter isImage (files st)"
  let ?sup = "filter isSupportedImage (files st)"
  assume a: "list_all (\<lambda>f. decoded f \<noteq> None) ?sup \<and> ?sup \<noteq> []"
  then show "length (imagesOf ?sup) = length ?sup" by (simp add: imagesOf_length)
  have sup: "filter isSupportedImage ?imgs = ?sup" by (rule supported_of_images)
  have ne: "?imgs \<noteq> []" using a sup by (metis filter.simps(1))
  have t: "imageTry ?imgs (setProcessing True st) =
     (None, emit \<lparr>title = ''Images Converted Successfully'',
                  description = ''Created PDF from '' @ toString (length ?imgs) @ '' images'',
                  variant = Default\<rparr>
            (handleFileProcessed \<lparr>name = ''images_to_pdf.pdf'',
                     blob = PdfBytes True (updateInfoDict (clock st) emptyInfo)
                              (map imagePage (imagesOf ?sup))\<rparr> (setProcessing True st)))"
  proof -
    from a have a1: "list_all (\<lambda>f. decoded f \<noteq> None) (filter isSupportedImage ?imgs)"
      and a2: "filter isSupportedImage ?imgs \<noteq> []"
      unfolding sup by simp_all
    have ck: "clock (setProcessing True st) = clock st"
      by (simp add: setProcessing_def)
    show ?thesis
      by (rule imageTry_ok [OF a1 a2, of "setProcessing True st", unfolded sup ck])
  qed
  have "handleImageToPDF st = setProcessing False (snd (imageTry ?imgs (setProcessing True st)))"
    using ne by (simp add: handleImageToPDF_def isImage_filter tryCatchFinally_def t Let_def)
  then show "handleImageToPDF st =
            st\<lparr>processedFiles := processedFiles st @
                   [\<lparr>name = ''images_to_pdf.pdf'',
                     blob = PdfBytes True (updateInfoDict (clock st) emptyInfo)
                              (map imagePage (imagesOf ?sup))\<rparr>],
               toasts := toasts st @
                   [processedToast ''images_to_pdf.pdf'',
                    \<lparr>title = ''Images Converted Successfully'',
                     description = ''Created PDF from '' @ toString (length ?imgs) @ '' images'',
                     variant = Default\<rparr>],
               processing := False\<rparr>"
    unfolding t by (simp add: emit_def handleFileProcessed_def setProcessing_def processedToast_def)
qed

text \<open>
  The claim C3 as it was stated fails when a file of type \<open>image/png\<close> does not hold a
  PNG the library can decode: \<open>embedPng\<close> throws, and the handler ends with the toast
  ``Conversion Failed'' and no processed file.
\<close>

theorem image_unreadable_png:
  "filter isImage (files (initialApp\<lparr>files := [brokenPng]\<rparr>)) = [brokenPng]
   \<and> handleImageToPDF (initialApp\<lparr>files := [brokenPng]\<rparr>) =
       initialApp\<lparr>files := [brokenPng], toasts := [imageFailed]\<rparr>"
  by code_simp

text \<open>
  When every image file is of another subtype the document has no page at \<open>save\<close>, and
  the library writes its one default blank page.
\<close>

lemma image_only_unsupported:
  "handleImageToPDF (initialApp\<lparr>files := [animGif]\<rparr>) =
     initialApp\<lparr>files := [animGif],
       processedFiles := [\<lparr>name = ''images_to_pdf.pdf'',
                           blob = PdfBytes True (updateInfoDict 1000 emptyInfo)
                                    [blankPage (59528 / 100) (84189 / 100)]\<rparr>],
       toasts := [processedToast ''images_to_pdf.pdf'',
                  \<lparr>title = ''Images Converted Successfully'',
                   description = ''Created PDF from 1 images'', variant = Default\<rparr>]\<rparr>"
  by code_simp

text \<open>The conversion on a PDF alone, and on a GIF, a PNG and a PDF.\<close>

theorem images_become_pages_witness:
  "handleImageToPDF (initialApp\<lparr>files := [onePagePdf]\<rparr>) =
     initialApp\<lparr>files := [onePagePdf],
       toasts := [errorToast ''Please upload image files to convert'']\<rparr>
   \<and> handleImageToPDF (initialApp\<lparr>files := [animGif, photoPng, onePagePdf]\<rparr>) =
     initialApp\<lparr>files := [animGif, photoPng, onePagePdf],
       processedFiles := [\<lparr>name = ''images_to_pdf.pdf'',
                           blob = PdfBytes True (updateInfoDict 1000 emptyInfo)
                                    [\<lparr>page_width = 640, page_height = 480,
                                      contents = [DrawImage photo 0 0 640 480]\<rparr>]\<rparr>],
       toasts := [processedToast ''images_to_pdf.pdf'',
                  \<lparr>title = ''Images Converted Successfully'',
                   description = ''Created PDF from 2 images'', variant = Default\<rparr>]\<rparr>"
proof -
  let ?none = "initialApp\<lparr>files := [onePagePdf]\<rparr>"
  let ?st = "initialApp\<lparr>files := [animGif, photoPng, onePagePdf]\<rparr>"
  have h1: "filter isImage (files ?none) = []"
    by code_simp
  have h2: "list_all (\<lambda>f. decoded f \<noteq> None) (filter isSupportedImage (files ?st))
        \<and> filter isSupportedImage (files ?st) \<noteq> []"
    by code_simp
  note a = images_become_pages [of ?none, THEN conjunct1, THEN mp, OF h1]
  note b = images_become_pages [of ?st, THEN conjunct2, THEN mp, OF h2, THEN conjunct1]
  have c: "?none\<lparr>toasts := toasts ?none @ [errorToast ''Please upload image files to convert'']\<rparr>
      = initialApp\<lparr>files := [onePagePdf],
       toasts := [errorToast ''Please upload image files to convert'']\<rparr>"
    by code_simp
  have d: "?st\<lparr>processedFiles := processedFiles ?st @
                   [\<lparr>name = ''images_to_pdf.pdf'',
                     blob = PdfBytes True (updateInfoDict (clock ?st) emptyInfo)
                              (map imagePage (imagesOf (filter isSupportedImage (files ?st))))\<rparr>],
               toasts := toasts ?st @
                   [processedToast ''images_to_pdf.pdf'',
                    \<lparr>title = ''Images Converted Successfully'',
                     description = ''Created PDF from ''
                                     @ toString (length (filter isImage (files ?st))) @ '' images'',
                     variant = Default\<rparr>],
               processing := False\<rparr>
     = initialApp\<lparr>files := [animGif, photoPng, onePagePdf],
       processedFiles := [\<lparr>name = ''images_to_pdf.pdf'',
                           blob = PdfBytes True (updateInfoDict 1000 emptyInfo)
                                    [\<lparr>page_width = 640, page_height = 480,
                                      contents = [DrawImage photo 0 0 640 480]\<rparr>]\<rparr>],
       toasts := [processedToast ''images_to_pdf.pdf'',
                  \<lparr>title = ''Images Converted Successfully'',
                   description = ''Created PDF from 2 images'', variant = Default\<rparr>]\<rparr>"
    by code_simp
  show ?thesis
    by (rule conjI) (rule trans [OF a c], rule trans [OF b d])
qed



subsection \<open>Edit\<close>

lemma editTry_ok:
  assumes "file_data f = PdfBytes os meta (p # ps)"
  shows "editTry f st =
     (None, emit \<lparr>title = ''PDF Edited Successfully'',
                  description = ''Sample text has been added to the document'',
                  variant = Default\<rparr>
            (handleFileProcessed \<lparr>name = replace (file_name f) ''.pdf'' [] @ ''_edited.pdf'',
                     blob = PdfBytes True (updateInfoDict (clock st) meta)
                             (p\<lparr>contents := contents p @ [sampleText p]\<rparr> # ps)\<rparr> st))"
  using assms
  by (simp add: editTry_def load_def getPages_def drawText_def draw_def getHeight_def
      sampleText_def save_def defaultSaveOptions_def)

text \<open>
  Claim C5. When the first file is of type \<open>application/pdf\<close> and is a PDF with at least
  one page, the edit hands on the same document with one thing more drawn on its first
  page, after all that was there: the text ``Sample Edit - Text Added by PDF Forge'' in
  size 12, red, at \<open>x = 50\<close> and \<open>y\<close> 50 below the page height. The size of the first
  page and every other page are as they were. Of the information dictionary, which is
  metadata and no content of a page, the library renews producer and modification date.
\<close>

theorem edit_adds_one_text_to_first_page:
  "files st = f # fs \<and> file_type f = ''application/pdf'' \<and> file_data f = PdfBytes os meta (p # ps)
     \<longrightarrow> handleEditPDF st =
           st\<lparr>processedFiles := processedFiles st @
                  [\<lparr>name = replace (file_name f) ''.pdf'' [] @ ''_edited.pdf'',
                    blob = PdfBytes True (updateInfoDict (clock st) meta)
                             (p\<lparr>contents := contents p @ [sampleText p]\<rparr> # ps)\<rparr>],
              toasts := toasts st @
                  [processedToast (replace (file_name f) ''.pdf'' [] @ ''_edited.pdf''),
                   \<lparr>title = ''PDF Edited Successfully'',
                    description = ''Sample text has been added to the document'',
                    variant = Default\<rparr>],
              processing := False\<rparr>"
proof
  assume a: "files st = f # fs \<and> file_type f = ''application/pdf'' \<and> file_data f = PdfBytes os meta (p # ps)"
  then have d: "file_data f = PdfBytes os meta (p # ps)" by simp
  have ck: "clock (setProcessing True st) = clock st"
    by (simp add: setProcessing_def)
  note t = editTry_ok [OF d, of "setProcessing True st", unfolded ck]
  have "handleEditPDF st = setProcessing False (snd (editTry f (setProcessing True st)))"
    using a by (simp add: handleEditPDF_def tryCatchFinally_def t)
  then show "handleEditPDF st =
           st\<lparr>processedFiles := processedFiles st @
                  [\<lparr>name = replace (file_name f) ''.pdf'' [] @ ''_edited.pdf'',
                    blob = PdfBytes True (updateInfoDict (clock st) meta)
                             (p\<lparr>contents := contents p @ [sampleText p]\<rparr> # ps)\<rparr>],
              toasts := toasts st @
                  [processedToast (replace (file_name f) ''.pdf'' [] @ ''_edited.pdf''),
                   \<lparr>title = ''PDF Edited Successfully'',
                    description = ''Sample text has been added to the document'',
                    variant = Default\<rparr>],
              processing := False\<rparr>"
    unfolding t by (simp add: emit_def handleFileProcessed_def setProcessing_def processedToast_def)
qed

text \<open>The edit on a PDF of two pages, the first of which already carries a text.\<close>

theorem edit_adds_one_text_to_first_page_witness:
  "handleEditPDF (initialApp\<lparr>files := [twoPagePdf, photoPng]\<rparr>) =
     initialApp\<lparr>files := [twoPagePdf, photoPng],
       processedFiles :=
         [\<lparr>name = ''two_edited.pdf'',
           blob = PdfBytes True (updateInfoDict 1000 scanInfo)
             [\<lparr>page_width = 595, page_height = 842,
               contents = [DrawText ''B'' 72 770 10 (RGB 0 0 0),
                           DrawText ''Sample Edit - Text Added by PDF Forge'' 50 792 12 (RGB 1 0 0)]\<rparr>,
              pageA]\<rparr>],
       toasts := [processedToast ''two_edited.pdf'',
                  \<lparr>title = ''PDF Edited Successfully'',
                   description = ''Sample text has been added to the document'',
                   variant = Default\<rparr>]\<rparr>"
proof -
  let ?st = "initialApp\<lparr>files := [twoPagePdf, photoPng]\<rparr>"
  have h: "files ?st = twoPagePdf # [photoPng] \<and> file_type twoPagePdf = ''application/pdf''
             \<and> file_data twoPagePdf = PdfBytes True scanInfo (pageB # [pageA])"
    by code_simp
  note a = edit_adds_one_text_to_first_page
             [of ?st twoPagePdf "[photoPng]" True scanInfo pageB "[pageA]", THEN mp, OF h]
  have b: "?st\<lparr>processedFiles := processedFiles ?st @
                  [\<lparr>name = replace (file_name twoPagePdf) ''.pdf'' [] @ ''_edited.pdf'',
                    blob = PdfBytes True (updateInfoDict (clock ?st) scanInfo)
                             (pageB\<lparr>contents := contents pageB @ [sampleText pageB]\<rparr> # [pageA])\<rparr>],
              toasts := toasts ?st @
                  [processedToast (replace (file_name twoPagePdf) ''.pdf'' [] @ ''_edited.pdf''),
                   \<lparr>title = ''PDF Edited Successfully'',
                    description = ''Sample text has been added to the document'',
                    variant = Default\<rparr>],
              processing := False\<rparr>
     = initialApp\<lparr>files := [twoPagePdf, photoPng],
       processedFiles :=
         [\<lparr>name = ''two_edited.pdf'',
           blob = PdfBytes True (updateInfoDict 1000 scanInfo)
             [\<lparr>page_width = 595, page_height = 842,
               contents = [DrawText ''B'' 72 770 10 (RGB 0 0 0),
                           DrawText ''Sample Edit - Text Added by PDF Forge'' 50 792 12 (RGB 1 0 0)]\<rparr>,
              pageA]\<rparr>],
       toasts := [processedToast ''two_edited.pdf'',
                  \<lparr>title = ''PDF Edited Successfully'',
                   description = ''Sample text has been added to the document'',
                   variant = Default\<rparr>]\<rparr>"
    by code_simp
  show ?thesis by (rule trans [OF a b])
qed



subsection \<open>Compress\<close>

lemma compress_level_unread:
  "handleCompressPDF r (st\<lparr>compressionLevel := l\<rparr>) = (handleCompressPDF r st)\<lparr>compressionLevel := l\<rparr>"
  by (simp add: handleCompressPDF_def tryCatchFinally_def compressTry_def emit_def
      handleFileProcessed_def setProcessing_def Let_def
      split: list.splits sum.splits)

lemma compress_produced:
  "produced st (handleCompressPDF r st) =
     (case files st of
        [] \<Rightarrow> []
      | f # _ \<Rightarrow>
          if file_type f \<noteq> ''application/pdf'' then []
          else (case file_data f of
                  PdfBytes _ meta doc \<Rightarrow>
                    [\<lparr>name = replace (file_name f) ''.pdf'' [] @ ''_compressed.pdf'',
                      blob = PdfBytes False (updateInfoDict (clock st) meta) doc\<rparr>]
                | _ \<Rightarrow> []))"
  by (simp add: produced_def handleCompressPDF_def tryCatchFinally_def compressTry_def emit_def
      handleFileProcessed_def setProcessing_def save_def load_def Let_def
      split: list.splits bytes.splits)

text \<open>
  Claim C6, as the code has it. The handler never reads \<open>compressionLevel\<close>: changing the
  setting before a run changes nothing of what the run does. What a run adds to the
  processed files is decided by the first uploaded file and by the reading of the clock:
  two runs in any two states that agree on that file and on the clock, whatever their
  compression levels, add the same file with the same bytes.
\<close>

theorem compress_ignores_level:
  "handleCompressPDF r (st\<lparr>compressionLevel := l\<rparr>)
     = (handleCompressPDF r st)\<lparr>compressionLevel := l\<rparr>
   \<and> (take 1 (files sa) = take 1 (files sb) \<and> clock sa = clock sb
        \<longrightarrow> produced sa (handleCompressPDF r sa) = produced sb (handleCompressPDF r sb))"
proof (intro conjI impI)
  show "handleCompressPDF r (st\<lparr>compressionLevel := l\<rparr>)
          = (handleCompressPDF r st)\<lparr>compressionLevel := l\<rparr>"
    by (rule compress_level_unread)
next
  assume a: "take 1 (files sa) = take 1 (files sb) \<and> clock sa = clock sb"
  then have c: "clock sb = clock sa" by simp
  from a have "take 1 (files sa) = take 1 (files sb)" by simp
  then show "produced sa (handleCompressPDF r sa) = produced sb (handleCompressPDF r sb)"
    by (cases "files sa"; cases "files sb") (simp_all add: compress_produced c split: bytes.splits)
qed

text \<open>
  The claim C6 as it was stated fails: two runs on the same file, at levels 10 and 100,
  one minute apart, write different bytes, because \<open>PDFDocument.load\<close> sets the
  modification date of the document to the time of the run. At the same time the two
  levels give the same bytes.
\<close>

theorem compress_output_carries_the_clock:
  "produced (initialApp\<lparr>files := [twoPagePdf], compressionLevel := [10], clock := 1000\<rparr>)
     (handleCompressPDF sampleRatio
        (initialApp\<lparr>files := [twoPagePdf], compressionLevel := [10], clock := 1000\<rparr>))
   = [\<lparr>name = ''two_compressed.pdf'',
       blob = PdfBytes False
                (scanInfo\<lparr>producer := Some ''pdf-lib (https://github.com/Hopding/pdf-lib)'',
                            modificationDate := Some 1000\<rparr>)
                [pageB, pageA]\<rparr>]
   \<and> produced (initialApp\<lparr>files := [twoPagePdf], compressionLevel := [100], clock := 1060\<rparr>)
     (handleCompressPDF sampleRatio
        (initialApp\<lparr>files := [twoPagePdf], compressionLevel := [100], clock := 1060\<rparr>))
   = [\<lparr>name = ''two_compressed.pdf'',
       blob = PdfBytes False
                (scanInfo\<lparr>producer := Some ''pdf-lib (https://github.com/Hopding/pdf-lib)'',
                            modificationDate := Some 1060\<rparr>)
                [pageB, pageA]\<rparr>]
   \<and> produced (initialApp\<lparr>files := [twoPagePdf], compressionLevel := [10], clock := 1000\<rparr>)
     (handleCompressPDF sampleRatio
        (initialApp\<lparr>files := [twoPagePdf], compressionLevel := [10], clock := 1000\<rparr>))
   \<noteq> produced (initialApp\<lparr>files := [twoPagePdf], compressionLevel := [100], clock := 1060\<rparr>)
     (handleCompressPDF sampleRatio
        (initialApp\<lparr>files := [twoPagePdf], compressionLevel := [100], clock := 1060\<rparr>))"
  by code_simp

text \<open>Two runs on the same PDF at the same time, at levels 10 and 100, after different histories.\<close>

theorem compress_ignores_level_witness:
  "produced (initialApp\<lparr>files := [twoPagePdf], compressionLevel := [10]\<rparr>)
     (handleCompressPDF sampleRatio (initialApp\<lparr>files := [twoPagePdf], compressionLevel := [10]\<rparr>))
   = [\<lparr>name = ''two_compressed.pdf'',
       blob = PdfBytes False (updateInfoDict 1000 scanInfo) [pageB, pageA]\<rparr>]
   \<and> produced (initialApp\<lparr>files := [twoPagePdf, photoPng], compressionLevel := [100],
                  processedFiles := [\<lparr>name = ''old.pdf'', blob = OtherBytes\<rparr>]\<rparr>)
     (handleCompressPDF sampleRatio
        (initialApp\<lparr>files := [twoPagePdf, photoPng], compressionLevel := [100],
                  processedFiles := [\<lparr>name = ''old.pdf'', blob = OtherBytes\<rparr>]\<rparr>))
   = [\<lparr>name = ''two_compressed.pdf'',
       blob = PdfBytes False (updateInfoDict 1000 scanInfo) [pageB, pageA]\<rparr>]"
proof -
  let ?sa = "initialApp\<lparr>files := [twoPagePdf], compressionLevel := [10]\<rparr>"
  let ?sb = "initialApp\<lparr>files := [twoPagePdf, photoPng], compressionLevel := [100],
                  processedFiles := [\<lparr>name = ''old.pdf'', blob = OtherBytes\<rparr>]\<rparr>"
  have h: "take 1 (files ?sa) = take 1 (files ?sb) \<and> clock ?sa = clock ?sb"
    by code_simp
  note a = compress_ignores_level [where r = sampleRatio and sa = ?sa and sb = ?sb,
      THEN conjunct2, THEN mp, OF h]
  have b: "produced ?sa (handleCompressPDF sampleRatio ?sa)
             = [\<lparr>name = ''two_compressed.pdf'',
                 blob = PdfBytes False (updateInfoDict 1000 scanInfo) [pageB, pageA]\<rparr>]"
    by code_simp
  show ?thesis
    by (rule conjI) (rule b, rule trans [OF a [symmetric] b])
qed



subsection \<open>Failure of a library call\<close>

lemma splitTry_thrown: "fst (splitTry f st) = Some e \<Longrightarrow> snd (splitTry f st) = st"
  by (auto simp: splitTry_def Let_def split: sum.splits)

lemma mergeTry_thrown: "fst (mergeTry fs st) = Some e \<Longrightarrow> snd (mergeTry fs st) = st"
  by (auto simp: mergeTry_def Let_def split: sum.splits)

lemma imageTry_thrown: "fst (imageTry fs st) = Some e \<Longrightarrow> snd (imageTry fs st) = st"
  by (auto simp: imageTry_def Let_def split: sum.splits)

lemma compressTry_thrown: "fst (compressTry r f st) = Some e \<Longrightarrow> snd (compressTry r f st) = st"
  by (auto simp: compressTry_def Let_def split: sum.splits)

lemma editTry_thrown: "fst (editTry f st) = Some e \<Longrightarrow> snd (editTry f st) = st"
  by (auto simp: editTry_def Let_def split: sum.splits list.splits)

lemma caught:
  assumes "fst (body (setProcessing True st)) = Some e"
    "snd (body (setProcessing True st)) = setProcessing True st"
  shows "tryCatchFinally body failed st = st\<lparr>toasts := toasts st @ [failed], processing := False\<rparr>"
proof -
  from assms have "body (setProcessing True st) = (Some e, setProcessing True st)"
    by (metis prod.collapse)
  then show ?thesis
    by (simp add: tryCatchFinally_def emit_def setProcessing_def)
qed

lemma firstPdf_Some:
  "firstPdf st = Some f \<Longrightarrow> \<exists>fs. files st = f # fs \<and> file_type f = ''application/pdf''"
  by (auto simp: firstPdf_def split: list.splits if_splits)

lemma thrown_caught:
  assumes "thrown r t st = Some e"
  shows "runTool r t st = st\<lparr>toasts := toasts st @ [failedToast t], processing := False\<rparr>"
proof (cases t)
  case Upload
  with assms show ?thesis by (simp add: thrown_def tryBlock_def)
next
  case Split
  with assms obtain f where f: "firstPdf st = Some f"
    and e: "fst (splitTry f (setProcessing True st)) = Some e"
    by (auto simp: thrown_def tryBlock_def split: option.splits)
  from firstPdf_Some [OF f] have "handleSplitPDF st = tryCatchFinally (splitTry f) splitFailed st"
    by (auto simp: handleSplitPDF_def)
  with Split show ?thesis
    by (simp add: runTool_def failedToast_def caught [where body = "splitTry f" and st = st, OF e splitTry_thrown [OF e]])
next
  case Merge
  let ?pdfs = "filter (\<lambda>f. file_type f = ''application/pdf'') (files st)"
  from assms Merge have g: "\<not> length ?pdfs < 2"
    and e: "fst (mergeTry ?pdfs (setProcessing True st)) = Some e"
    by (auto simp: thrown_def tryBlock_def Let_def split: if_splits)
  from g have "handleMergePDFs st = tryCatchFinally (mergeTry ?pdfs) mergeFailed st"
    by (simp add: handleMergePDFs_def Let_def)
  with Merge show ?thesis
    by (simp add: runTool_def failedToast_def caught [where body = "mergeTry ?pdfs" and st = st, OF e mergeTry_thrown [OF e]])
next
  case ImageToPdf
  let ?imgs = "filter (\<lambda>f. startsWith (file_type f) ''image/'') (files st)"
  from assms ImageToPdf have g: "\<not> length ?imgs = 0"
    and e: "fst (imageTry ?imgs (setProcessing True st)) = Some e"
    by (auto simp: thrown_def tryBlock_def Let_def split: if_splits)
  from g have "handleImageToPDF st = tryCatchFinally (imageTry ?imgs) imageFailed st"
    by (simp add: handleImageToPDF_def Let_def)
  with ImageToPdf show ?thesis
    by (simp add: runTool_def failedToast_def caught [where body = "imageTry ?imgs" and st = st, OF e imageTry_thrown [OF e]])
next
  case Compress
  with assms obtain f where f: "firstPdf st = Some f"
    and e: "fst (compressTry r f (setProcessing True st)) = Some e"
    by (auto simp: thrown_def tryBlock_def split: option.splits)
  from firstPdf_Some [OF f]
  have "handleCompressPDF r st = tryCatchFinally (compressTry r f) compressFailed st"
    by (auto simp: handleCompressPDF_def)
  with Compress show ?thesis
    by (simp add: runTool_def failedToast_def caught [where body = "compressTry r f" and st = st, OF e compressTry_thrown [OF e]])
next
  case Edit
  with assms obtain f where f: "firstPdf st = Some f"
    and e: "fst (editTry f (setProcessing True st)) = Some e"
    by (auto simp: thrown_def tryBlock_def split: option.splits)
  from firstPdf_Some [OF f] have "handleEditPDF st = tryCatchFinally (editTry f) editFailed st"
    by (auto simp: handleEditPDF_def)
  with Edit show ?thesis
    by (simp add: runTool_def failedToast_def caught [where body = "editTry f" and st = st, OF e editTry_thrown [OF e]])
qed

lemma failedToast_destructive: "t \<noteq> Upload \<Longrightarrow> variant (failedToast t) = Destructive"
  by (cases t)
     (simp_all add: failedToast_def splitFailed_def mergeFailed_def imageFailed_def
        compressFailed_def editFailed_def)

lemma thrown_not_upload: "thrown r t st = Some e \<Longrightarrow> t \<noteq> Upload"
  by (auto simp: thrown_def tryBlock_def)

text \<open>
  Claim C4. Whichever of the five tools runs, when a call inside its \<open>try\<close> block throws,
  the handler leaves the state as it found it but for two things: one toast more, the
  destructive toast of that tool, and the processing flag, which is off. No processed
  file is added.
\<close>

theorem library_exception_caught:
  "thrown r t st = Some e \<longrightarrow>
     runTool r t st = st\<lparr>toasts := toasts st @ [failedToast t], processing := False\<rparr>
     \<and> variant (failedToast t) = Destructive
     \<and> processedFiles (runTool r t st) = processedFiles st
     \<and> produced st (runTool r t st) = []
     \<and> processing (runTool r t st) = False"
proof
  assume a: "thrown r t st = Some e"
  note c = thrown_caught [OF a]
  show "runTool r t st = st\<lparr>toasts := toasts st @ [failedToast t], processing := False\<rparr>
     \<and> variant (failedToast t) = Destructive
     \<and> processedFiles (runTool r t st) = processedFiles st
     \<and> produced st (runTool r t st) = []
     \<and> processing (runTool r t st) = False"
    using failedToast_destructive [OF thrown_not_upload [OF a]]
    by (simp add: c produced_def)
qed

text \<open>
  Each tool on an input that makes a library call throw: a page range beyond the
  document, an unreadable PDF for merge and for compress, an unreadable PNG, and a PDF
  without pages for edit.
\<close>

theorem library_exception_caught_witness:
  "runTool sampleRatio Split (initialApp\<lparr>files := [onePagePdf]\<rparr>)
     = initialApp\<lparr>files := [onePagePdf], toasts := [splitFailed]\<rparr>
   \<and> runTool sampleRatio Merge (syncMergeOrder (initialApp\<lparr>files := [onePagePdf, brokenPdf]\<rparr>))
     = initialApp\<lparr>files := [onePagePdf, brokenPdf], mergeOrder := [0, 1], toasts := [mergeFailed]\<rparr>
   \<and> runTool sampleRatio ImageToPdf (initialApp\<lparr>files := [brokenPng]\<rparr>)
     = initialApp\<lparr>files := [brokenPng], toasts := [imageFailed]\<rparr>
   \<and> runTool sampleRatio Compress (initialApp\<lparr>files := [brokenPdf]\<rparr>)
     = initialApp\<lparr>files := [brokenPdf], toasts := [compressFailed]\<rparr>
   \<and> runTool sampleRatio Edit (initialApp\<lparr>files := [noPagePdf]\<rparr>)
     = initialApp\<lparr>files := [noPagePdf], toasts := [editFailed]\<rparr>"
proof -
  let ?s = "initialApp\<lparr>files := [onePagePdf]\<rparr>"
  let ?m = "syncMergeOrder (initialApp\<lparr>files := [onePagePdf, brokenPdf]\<rparr>)"
  let ?i = "initialApp\<lparr>files := [brokenPng]\<rparr>"
  let ?c = "initialApp\<lparr>files := [brokenPdf]\<rparr>"
  let ?e = "initialApp\<lparr>files := [noPagePdf]\<rparr>"
  have hs: "thrown sampleRatio Split ?s = Some TypeError" by code_simp
  have hm: "thrown sampleRatio Merge ?m = Some PdfParseError" by code_simp
  have hi: "thrown sampleRatio ImageToPdf ?i = Some ImageParseError" by code_simp
  have hc: "thrown sampleRatio Compress ?c = Some PdfParseError" by code_simp
  have he: "thrown sampleRatio Edit ?e = Some TypeError" by code_simp
  note ts = library_exception_caught [of sampleRatio Split ?s TypeError, THEN mp, OF hs, THEN conjunct1]
  note tm = library_exception_caught [of sampleRatio Merge ?m PdfParseError, THEN mp, OF hm, THEN conjunct1]
  note ti = library_exception_caught [of sampleRatio ImageToPdf ?i ImageParseError, THEN mp, OF hi, THEN conjunct1]
  note tc = library_exception_caught [of sampleRatio Compress ?c PdfParseError, THEN mp, OF hc, THEN conjunct1]
  note te = library_exception_caught [of sampleRatio Edit ?e TypeError, THEN mp, OF he, THEN conjunct1]
  have s: "?s\<lparr>toasts := toasts ?s @ [failedToast Split], processing := False\<rparr>
             = initialApp\<lparr>files := [onePagePdf], toasts := [splitFailed]\<rparr>"
    by code_simp
  have m: "?m\<lparr>toasts := toasts ?m @ [failedToast Merge], processing := False\<rparr>
             = initialApp\<lparr>files := [onePagePdf, brokenPdf], mergeOrder := [0, 1],
                 toasts := [mergeFailed]\<rparr>"
    by code_simp
  have i: "?i\<lparr>toasts := toasts ?i @ [failedToast ImageToPdf], processing := False\<rparr>
             = initialApp\<lparr>files := [brokenPng], toasts := [imageFailed]\<rparr>"
    by code_simp
  have c: "?c\<lparr>toasts := toasts ?c @ [failedToast Compress], processing := False\<rparr>
             = initialApp\<lparr>files := [brokenPdf], toasts := [compressFailed]\<rparr>"
    by code_simp
  have e: "?e\<lparr>toasts := toasts ?e @ [failedToast Edit], processing := False\<rparr>
             = initialApp\<lparr>files := [noPagePdf], toasts := [editFailed]\<rparr>"
    by code_simp
  show ?thesis
    using trans [OF ts s] trans [OF tm m] trans [OF ti i] trans [OF tc c] trans [OF te e]
    by (intro conjI)
qed



subsection \<open>The uploader\<close>

lemma checkFile_accepts: "fst (checkFile f st) = accepted f"
  by (auto simp: checkFile_def accepted_def Let_def)

lemma checkFile_toasts:
  "snd (checkFile f st) = (if accepted f then st else emit (rejection f) st)"
  by (auto simp: checkFile_def accepted_def rejection_def Let_def)

lemma filterFiles_accepted:
  "filterFiles fs st =
     (filter accepted fs, st\<lparr>toasts := toasts st @ map rejection (filter (\<lambda>f. \<not> accepted f) fs)\<rparr>)"
proof (induction fs arbitrary: st)
  case Nil
  show ?case by simp
next
  case (Cons f fs)
  have c: "checkFile f st = (accepted f, if accepted f then st else emit (rejection f) st)"
    using checkFile_accepts [of f st] checkFile_toasts [of f st] by (metis prod.collapse)
  show ?case by (simp add: c Cons.IH emit_def)
qed

lemma file_input_appends:
  "handleFileInput fs st =
     (if filter accepted fs = []
      then st\<lparr>toasts := toasts st @ map rejection (filter (\<lambda>f. \<not> accepted f) fs)\<rparr>
      else st\<lparr>toasts := toasts st @ map rejection (filter (\<lambda>f. \<not> accepted f) fs)
                             @ [\<lparr>title = ''Files uploaded successfully'',
                                  description = toString (length (uploadedFiles st @ filter accepted fs))
                                                  @ '' file(s) ready for processing'',
                                  variant = Default\<rparr>],
              uploadedFiles := uploadedFiles st @ filter accepted fs,
              files := uploadedFiles st @ filter accepted fs\<rparr>)"
  by (simp add: handleFileInput_def handleFiles_def filterFiles_accepted handleFilesUploaded_def
      emit_def Let_def)

lemma drop_replaces:
  "filter accepted fs \<noteq> [] \<Longrightarrow> uploadedFiles (handleDrop fs st) = filter accepted fs"
  by (simp add: handleDrop_def handleFiles_def filterFiles_accepted handleFilesUploaded_def
      emit_def Let_def)

text \<open>
  Through the file input: a text file and a PDF of 50 MiB and one byte are turned away
  with a toast each, and the PDF that is let in goes after the one already there.
\<close>

lemma file_input_example:
  "handleFileInput [textFile, hugePdf, twoPagePdf] (handleFileInput [onePagePdf] initialApp) =
     initialApp\<lparr>files := [onePagePdf, twoPagePdf], uploadedFiles := [onePagePdf, twoPagePdf],
       toasts := [\<lparr>title = ''Files uploaded successfully'',
                   description = ''1 file(s) ready for processing'', variant = Default\<rparr>,
                  \<lparr>title = ''Invalid file type'',
                   description = ''notes.txt is not a PDF or image file'', variant = Destructive\<rparr>,
                  \<lparr>title = ''File too large'',
                   description = ''huge.pdf exceeds 50MB limit'', variant = Destructive\<rparr>,
                  \<lparr>title = ''Files uploaded successfully'',
                   description = ''2 file(s) ready for processing'', variant = Default\<rparr>]\<rparr>"
proof -
  have n: "toString (Suc 0) = ''1''" "toString (Suc (Suc 0)) = ''2''"
    by code_simp+
  have a: "accepted onePagePdf" "accepted twoPagePdf" "\<not> accepted textFile" "\<not> accepted hugePdf"
    by (simp_all add: accepted_def onePagePdf_def twoPagePdf_def textFile_def hugePdf_def
        startsWith_def)
  have r: "rejection textFile = \<lparr>title = ''Invalid file type'',
                   description = ''notes.txt is not a PDF or image file'', variant = Destructive\<rparr>"
    "rejection hugePdf = \<lparr>title = ''File too large'',
                   description = ''huge.pdf exceeds 50MB limit'', variant = Destructive\<rparr>"
    by (simp_all add: rejection_def textFile_def hugePdf_def startsWith_def)
  show ?thesis
    by (simp add: file_input_appends a r) (simp add: initialApp_def n)
qed

text \<open>
  Claim C7 fails on the drop path. After \<open>one.pdf\<close> has come in through the file input,
  dropping \<open>two.pdf\<close> leaves the uploader and the page with \<open>two.pdf\<close> alone: the
  callback of \<open>handleDrop\<close> still appends to the empty list of the first render.
\<close>

theorem drop_forgets_uploaded_files:
  "uploadedFiles (handleFileInput [onePagePdf] initialApp) = [onePagePdf]
   \<and> accepted twoPagePdf
   \<and> uploadedFiles (handleDrop [twoPagePdf] (handleFileInput [onePagePdf] initialApp)) = [twoPagePdf]
   \<and> files (handleDrop [twoPagePdf] (handleFileInput [onePagePdf] initialApp)) = [twoPagePdf]
   \<and> uploadedFiles (handleFileInput [twoPagePdf] (handleFileInput [onePagePdf] initialApp))
       = [onePagePdf, twoPagePdf]"
  by (simp add: handleDrop_def handleFileInput_def handleFiles_def checkFile_def startsWith_def
      handleFilesUploaded_def emit_def accepted_def initialApp_def onePagePdf_def twoPagePdf_def
      Let_def)



subsection \<open>Undo and redo\<close>

text \<open>
  What the two handlers of the editor do to the canvas. Undo, when \<open>canUndo\<close> is set,
  takes the topmost object off; without the flag it does nothing. Redo shows a toast and
  leaves the canvas and both flags alone, and no handler ever sets \<open>canRedo\<close>, the flag
  that would enable its button.
\<close>

lemma undo_removes_top:
  assumes "fabricCanvas ed = Some (objs @ [ob])" "distinct (objs @ [ob])" "canUndo ed"
  shows "handleUndo ed = ed\<lparr>fabricCanvas := Some objs, canUndo := (objs \<noteq> []), canRedo := False\<rparr>"
proof -
  have "remove1 ob (objs @ [ob]) = objs"
    using assms(2) by (simp add: remove1_append)
  then show ?thesis
    using assms(1,3)
    by (simp add: handleUndo_def canvasRemove_def updateUndoRedo_def)
qed

lemma undo_without_flag: "\<not> canUndo ed \<Longrightarrow> handleUndo ed = ed"
  by (simp add: handleUndo_def split: option.splits)

lemma redo_leaves_canvas:
  "fabricCanvas (handleRedo ed) = fabricCanvas ed
   \<and> canUndo (handleRedo ed) = canUndo ed
   \<and> canRedo (handleRedo ed) = canRedo ed"
  by (simp add: handleRedo_def)

lemma canRedo_stays_off:
  assumes "\<not> canRedo ed"
  shows "\<not> canRedo (updateUndoRedo ed)" "\<not> canRedo (canvasAdd ob ed)"
    "\<not> canRedo (canvasRemove ob ed)" "\<not> canRedo (handleUndo ed)" "\<not> canRedo (handleRedo ed)"
  using assms
  by (auto simp: updateUndoRedo_def canvasAdd_def canvasRemove_def handleUndo_def handleRedo_def
      split: option.splits)

lemma undo_redo_example:
  "fabricCanvas (canvasAdd 1 emptyEditor) = Some [1]
   \<and> fabricCanvas (handleUndo (canvasAdd 1 emptyEditor)) = Some []
   \<and> fabricCanvas (handleRedo (handleUndo (canvasAdd 1 emptyEditor))) = Some []
   \<and> canRedo (handleUndo (canvasAdd 1 emptyEditor)) = False"
  by code_simp

end
